theory Spec2Isabelle
  imports Main
begin

section \<open>Strings of the time field\<close>

text \<open>
  The text typed into the time field is a JavaScript string.  It is modelled as a
  \<^typ>\<open>string\<close> whose characters are the code units below 256.  The character
  classes are those of ECMAScript restricted to that range: \<open>\s\<close> and \<open>trim\<close> remove
  TAB, LF, VT, FF, CR, SPACE and NO-BREAK SPACE, \<open>\d\<close> is \<open>0\<close>..\<open>9\<close>, and
  \<open>toLowerCase\<close> maps \<open>A\<close>..\<open>Z\<close> and the Latin-1 capitals to their small letters.
\<close>

definition isWhiteSpace :: "char \<Rightarrow> bool" where
  "isWhiteSpace c = (let n = (of_char c :: nat) in (9 \<le> n \<and> n \<le> 13) \<or> n = 32 \<or> n = 160)"

definition isDigit :: "char \<Rightarrow> bool" where
  "isDigit c = (let n = (of_char c :: nat) in 48 \<le> n \<and> n \<le> 57)"

definition toLowerCase_char :: "char \<Rightarrow> char" where
  "toLowerCase_char c =
     (let n = (of_char c :: nat) in
      if (65 \<le> n \<and> n \<le> 90) \<or> (192 \<le> n \<and> n \<le> 222 \<and> n \<noteq> 215) then char_of (n + 32) else c)"

definition toLowerCase :: "string \<Rightarrow> string" where
  "toLowerCase s = map toLowerCase_char s"

definition trim :: "string \<Rightarrow> string" where
  "trim s = rev (dropWhile isWhiteSpace (rev (dropWhile isWhiteSpace s)))"

text \<open>\<^verbatim>\<open>s.replace(/\s+/g, '')\<close>: every run of white space is deleted.\<close>

definition remove_whitespace :: "string \<Rightarrow> string" where
  "remove_whitespace s = filter (\<lambda>c. \<not> isWhiteSpace c) s"

text \<open>
  \<^verbatim>\<open>parseInt(g, 10)\<close> is only ever applied to a capture of \<open>\d{1,2}\<close> or \<open>\d{2}\<close>,
  a non-empty string of decimal digits, where it is the decimal value.
\<close>

definition digit_value :: "char \<Rightarrow> nat" where
  "digit_value c = of_char c - 48"

definition parseInt :: "string \<Rightarrow> nat" where
  "parseInt g = foldl (\<lambda>acc c. 10 * acc + digit_value c) 0 g"

section \<open>The pattern of \<open>parseTimeString\<close>\<close>

text \<open>
  \<^verbatim>\<open>/^(\d{1,2})(?::(\d{2}))?\s*(am|pm)$/i\<close> as a backtracking matcher that returns the
  three captures.  Each quantifier is greedy and falls back to its shorter alternative
  when the rest of the pattern fails, in the order of the regular expression engine.
  After \<open>\s*\<close> the pattern continues with a letter, so giving white space back can
  never produce a match and the greedy choice for \<open>\s*\<close> is the only one tried.
\<close>

definition match_period :: "string \<Rightarrow> string option" where
  "match_period s =
     (if toLowerCase s = ''am'' \<or> toLowerCase s = ''pm'' then Some s else None)"

definition match_space_period :: "string \<Rightarrow> string option" where
  "match_space_period s = match_period (dropWhile isWhiteSpace s)"

definition match_minutes :: "string \<Rightarrow> (string option \<times> string) option" where
  "match_minutes s =
     (case (case s of
              c # d1 # d2 # r \<Rightarrow>
                if c = CHR '':'' \<and> isDigit d1 \<and> isDigit d2
                then map_option (\<lambda>p. (Some [d1, d2], p)) (match_space_period r)
                else None
            | _ \<Rightarrow> None) of
        Some res \<Rightarrow> Some res
      | None \<Rightarrow> map_option (\<lambda>p. (None, p)) (match_space_period s))"

definition time_regex :: "string \<Rightarrow> (string \<times> string option \<times> string) option" where
  "time_regex s =
     (case s of
        [] \<Rightarrow> None
      | d1 # r1 \<Rightarrow>
          if \<not> isDigit d1 then None
          else (case (case r1 of
                        d2 # r2 \<Rightarrow>
                          if isDigit d2
                          then map_option (\<lambda>(m, p). ([d1, d2], m, p)) (match_minutes r2)
                          else None
                      | [] \<Rightarrow> None) of
                  Some res \<Rightarrow> Some res
                | None \<Rightarrow> map_option (\<lambda>(m, p). ([d1], m, p)) (match_minutes r1)))"

section \<open>\<open>parseTimeString\<close>\<close>

record ClockTime =
  hours :: nat
  minutes :: nat

definition cleaned :: "string \<Rightarrow> string" where
  "cleaned input = remove_whitespace (toLowerCase (trim input))"

definition parseTimeString :: "string \<Rightarrow> ClockTime option" where
  "parseTimeString input =
     (case time_regex (cleaned input) of
        None \<Rightarrow> None
      | Some (m1, m2, m3) \<Rightarrow>
          (let hours0 = parseInt m1;
               minutes0 = (case m2 of Some g \<Rightarrow> parseInt g | None \<Rightarrow> 0);
               period = toLowerCase m3
           in if hours0 < 1 \<or> hours0 > 12 then None
              else if minutes0 < 0 \<or> minutes0 > 59 then None
              else Some \<lparr>hours =
                           (if period = ''am''
                            then (if hours0 = 12 then 0 else hours0)
                            else (if hours0 \<noteq> 12 then hours0 + 12 else hours0)),
                         minutes = minutes0\<rparr>))"

section \<open>Time values and the UTC calendar\<close>

text \<open>
  A \<open>Date\<close> holds a time value: integral milliseconds since 1970-01-01T00:00:00Z.
  The calendar is the one of the ECMAScript specification (Day Number and Time within
  Day, Year Number, Month Number, Date Number, \<open>MakeTime\<close>, \<open>MakeDay\<close>, \<open>MakeDate\<close>),
  with months counted from 0.  Time values are unbounded integers here: the clipping
  of results beyond 8.64e15 ms (\<open>TimeClip\<close>) and the reading of the years 0..99 as
  1900..1999 by \<open>Date.UTC\<close> are outside the model, which describes hosts whose clock
  reads a date of the present era.
\<close>

definition msPerDay :: int where "msPerDay = 86400000"
definition msPerHour :: int where "msPerHour = 3600000"
definition msPerMinute :: int where "msPerMinute = 60000"
definition msPerSecond :: int where "msPerSecond = 1000"

definition Day :: "int \<Rightarrow> int" where
  "Day t = t div msPerDay"

definition TimeWithinDay :: "int \<Rightarrow> int" where
  "TimeWithinDay t = t mod msPerDay"

definition DaysInYear :: "int \<Rightarrow> int" where
  "DaysInYear y =
     (if y mod 4 \<noteq> 0 then 365
      else if y mod 100 \<noteq> 0 then 366
      else if y mod 400 \<noteq> 0 then 365
      else 366)"

definition DayFromYear :: "int \<Rightarrow> int" where
  "DayFromYear y =
     365 * (y - 1970) + (y - 1969) div 4 - (y - 1901) div 100 + (y - 1601) div 400"

text \<open>
  \<open>YearFromTime t\<close> is the largest year \<open>y\<close> whose first day is not after \<open>t\<close>.  It
  is found by counting up from a year that is not after it.
\<close>

function year_from :: "int \<Rightarrow> int \<Rightarrow> int" where
  "year_from d y = (if DayFromYear (y + 1) \<le> d then year_from d (y + 1) else y)"
  by pat_completeness auto
termination
proof (relation "measure (\<lambda>(d, y). nat (d + 1 - DayFromYear (y + 1)))")
  show "wf (measure (\<lambda>(d, y). nat (d + 1 - DayFromYear (y + 1))))"
    by simp
next
  fix d y :: int
  assume "DayFromYear (y + 1) \<le> d"
  moreover have "DayFromYear (y + 1) < DayFromYear (y + 1 + 1)"
  proof -
    have a: "(y + 1 - 1969) div 4 \<le> (y + 1 + 1 - 1969) div 4"
      by (rule zdiv_mono1) simp_all
    have b: "(y + 1 + 1 - 1901) div 100 \<le> (y + 1 - 1901) div 100 + 1"
      by linarith
    have c: "(y + 1 - 1601) div 400 \<le> (y + 1 + 1 - 1601) div 400"
      by (rule zdiv_mono1) simp_all
    have lin: "365 * (y + 1 - 1970) + p - q + r < 365 * (y + 1 + 1 - 1970) + p' - q' + r'"
      if "p \<le> p'" "q' \<le> q + 1" "r \<le> r'" for p p' q q' r r' :: int
      using that by simp
    show ?thesis
      unfolding DayFromYear_def by (rule lin [OF a b c])
  qed
  ultimately show "((d, y + 1), (d, y)) \<in> measure (\<lambda>(d, y). nat (d + 1 - DayFromYear (y + 1)))"
    by simp
qed

declare year_from.simps [simp del]

definition YearFromTime :: "int \<Rightarrow> int" where
  "YearFromTime t =
     (let d = Day t
      in year_from d (1970 + (if 0 \<le> d then d div 366 else d div 365)))"

definition InLeapYear :: "int \<Rightarrow> int" where
  "InLeapYear t = (if DaysInYear (YearFromTime t) = 366 then 1 else 0)"

definition DayWithinYear :: "int \<Rightarrow> int" where
  "DayWithinYear t = Day t - DayFromYear (YearFromTime t)"

definition MonthFromTime :: "int \<Rightarrow> int" where
  "MonthFromTime t =
     (let d = DayWithinYear t; l = InLeapYear t
      in if d < 31 then 0
         else if d < 59 + l then 1
         else if d < 90 + l then 2
         else if d < 120 + l then 3
         else if d < 151 + l then 4
         else if d < 181 + l then 5
         else if d < 212 + l then 6
         else if d < 243 + l then 7
         else if d < 273 + l then 8
         else if d < 304 + l then 9
         else if d < 334 + l then 10
         else 11)"

text \<open>The day within the year on which month \<open>m\<close> (0..11) begins.\<close>

definition MonthStart :: "int \<Rightarrow> int \<Rightarrow> int" where
  "MonthStart m l =
     (if m = 0 then 0
      else if m = 1 then 31
      else if m = 2 then 59 + l
      else if m = 3 then 90 + l
      else if m = 4 then 120 + l
      else if m = 5 then 151 + l
      else if m = 6 then 181 + l
      else if m = 7 then 212 + l
      else if m = 8 then 243 + l
      else if m = 9 then 273 + l
      else if m = 10 then 304 + l
      else 334 + l)"

definition DateFromTime :: "int \<Rightarrow> int" where
  "DateFromTime t = DayWithinYear t - MonthStart (MonthFromTime t) (InLeapYear t) + 1"

definition HourFromTime :: "int \<Rightarrow> int" where
  "HourFromTime t = (t div msPerHour) mod 24"

definition MinFromTime :: "int \<Rightarrow> int" where
  "MinFromTime t = (t div msPerMinute) mod 60"

definition SecFromTime :: "int \<Rightarrow> int" where
  "SecFromTime t = (t div msPerSecond) mod 60"

definition msFromTime :: "int \<Rightarrow> int" where
  "msFromTime t = t mod msPerSecond"

definition MakeTime :: "int \<Rightarrow> int \<Rightarrow> int \<Rightarrow> int \<Rightarrow> int" where
  "MakeTime hour minute sec ms = hour * msPerHour + minute * msPerMinute + sec * msPerSecond + ms"

definition MakeDay :: "int \<Rightarrow> int \<Rightarrow> int \<Rightarrow> int" where
  "MakeDay year month date =
     (let ym = year + month div 12;
          mn = month mod 12
      in DayFromYear ym + MonthStart mn (if DaysInYear ym = 366 then 1 else 0) + date - 1)"

definition MakeDate :: "int \<Rightarrow> int \<Rightarrow> int" where
  "MakeDate day time = day * msPerDay + time"

definition Date_UTC :: "int \<Rightarrow> int \<Rightarrow> int \<Rightarrow> int \<Rightarrow> int \<Rightarrow> int \<Rightarrow> int" where
  "Date_UTC year month date hour minute sec =
     MakeDate (MakeDay year month date) (MakeTime hour minute sec 0)"

text \<open>\<^verbatim>\<open>d.setUTCDate(dt)\<close> on a date with time value \<open>t\<close>: the new time value.\<close>

definition setUTCDate :: "int \<Rightarrow> int \<Rightarrow> int" where
  "setUTCDate t dt = MakeDate (MakeDay (YearFromTime t) (MonthFromTime t) dt) (TimeWithinDay t)"

section \<open>\<open>validateAndParse\<close> of the time field\<close>

text \<open>
  The callback calls \<open>setError\<close>, \<open>setIsValid\<close> and \<open>onTimeChange\<close> once each
  on every path; the model returns the arguments of the three calls.  The date given
  to \<open>onTimeChange\<close> is its time value, \<open>None\<close> for \<open>null\<close>.  \<open>now\<close> is the time value
  of the \<^verbatim>\<open>new Date()\<close> read inside the callback.
\<close>

record TimeInputState =
  setError :: string
  setIsValid :: bool
  onTimeChange :: "int option \<times> bool"

definition validateAndParse :: "string \<Rightarrow> int \<Rightarrow> TimeInputState" where
  "validateAndParse value now =
     (if trim value = [] then
        \<lparr>setError = [], setIsValid = False, onTimeChange = (None, False)\<rparr>
      else
        (case parseTimeString value of
           None \<Rightarrow>
             \<lparr>setError = ''Please enter time in format: HH:MM AM/PM (e.g., 2:30 PM)'',
              setIsValid = False, onTimeChange = (None, False)\<rparr>
         | Some parsed \<Rightarrow>
             (let targetDate0 =
                    Date_UTC (YearFromTime now) (MonthFromTime now) (DateFromTime now)
                      (int (hours parsed)) (int (minutes parsed)) 0;
                  targetDate =
                    (if targetDate0 \<le> now
                     then setUTCDate targetDate0 (DateFromTime targetDate0 + 1)
                     else targetDate0)
              in \<lparr>setError = [], setIsValid = True, onTimeChange = (Some targetDate, True)\<rparr>)))"

section \<open>The notification scheduler\<close>

text \<open>
  \<open>scheduleAccessNotifications\<close> exists in three revisions: the one of
  \<^verbatim>\<open>src/lib/twilio.ts\<close>, which sends every message that lies after \<open>now\<close>, and the two
  of \<^verbatim>\<open>unnamed/part_004\<close>, which send a message only with a lead of 15 minutes (the
  first) and of 16 minutes (the second, the last revision).  All read their
  credentials from the environment when the module is loaded, build two messages and
  hand them to \<^verbatim>\<open>client.messages.create\<close> inside one \<^verbatim>\<open>try\<close> block.  The
  construction of the client from the credentials is taken to succeed.

  An environment variable that is not set and one set to the empty string are both
  falsy, and the code does nothing else with them but that test and passing them on;
  both are the empty string in \<open>Env\<close>.  \<open>create\<close> is the provider call: it returns
  the \<open>sid\<close> of the accepted message or throws.  The formatted access time comes from
  the host's \<open>Intl\<close> implementation and is a parameter.  \<open>now\<close> is the time value of
  the \<^verbatim>\<open>new Date()\<close> read by the scheduler, and \<open>accessTime\<close> is the time value of a valid
  date, as the endpoint passes it.  Every function returns, with its result, the
  requests it gave to \<open>create\<close>, in order.  Message texts are UTF-8 bytes.
\<close>

record Env =
  TWILIO_ACCOUNT_SID :: string
  TWILIO_AUTH_TOKEN :: string
  TWILIO_PHONE_NUMBER :: string
  TWILIO_MESSAGING_SERVICE_SID :: string

datatype thrown = Error_object string | Other_value

record MessageCreateOptions =
  body :: string
  from_number :: "string option"
  messagingServiceSid :: "string option"
  to_number :: string
  scheduleType :: string
  sendAt :: int

record ScheduledMessage =
  message_type :: string
  scheduledFor :: string

record ScheduleResult =
  success :: bool
  messageIds :: "string list option"
  scheduledMessages :: "ScheduledMessage list option"
  error :: "string option"

record ScheduleParams =
  phoneNumber :: string
  accessTime :: int
  timezone :: string

text \<open>\<^verbatim>\<open>error instanceof Error ? error.message : 'Unknown error occurred'\<close>\<close>

definition errorMessage :: "thrown \<Rightarrow> string" where
  "errorMessage e = (case e of Error_object m \<Rightarrow> m | Other_value \<Rightarrow> ''Unknown error occurred'')"

text \<open>The result of the \<^verbatim>\<open>catch\<close> block, the same in the three revisions.\<close>

definition catch_result :: "thrown \<Rightarrow> ScheduleResult" where
  "catch_result e =
     \<lparr>success = False, messageIds = None, scheduledMessages = None,
      error = Some (''Failed to schedule SMS: '' @ errorMessage e)\<rparr>"

definition failure_result :: "string \<Rightarrow> ScheduleResult" where
  "failure_result msg =
     \<lparr>success = False, messageIds = None, scheduledMessages = None, error = Some msg\<rparr>"

subsection \<open>\<open>Date.prototype.toISOString\<close>\<close>

definition digit_char :: "nat \<Rightarrow> char" where
  "digit_char n = char_of (48 + n)"

definition decimal_digits :: "nat \<Rightarrow> nat \<Rightarrow> string" where
  "decimal_digits k n = map (\<lambda>i. digit_char ((n div 10 ^ i) mod 10)) (rev [0..<k])"

definition toISOString :: "int \<Rightarrow> string" where
  "toISOString t =
     (let y = YearFromTime t
      in (if 0 \<le> y \<and> y \<le> 9999 then decimal_digits 4 (nat y)
          else (if y < 0 then ''-'' else ''+'') @ decimal_digits 6 (nat \<bar>y\<bar>))
         @ ''-'' @ decimal_digits 2 (nat (MonthFromTime t + 1))
         @ ''-'' @ decimal_digits 2 (nat (DateFromTime t))
         @ ''T'' @ decimal_digits 2 (nat (HourFromTime t))
         @ '':'' @ decimal_digits 2 (nat (MinFromTime t))
         @ '':'' @ decimal_digits 2 (nat (SecFromTime t))
         @ ''.'' @ decimal_digits 3 (nat (msFromTime t))
         @ ''Z'')"

subsection \<open>The revision with the 16 minute lead (the last one)\<close>

definition warning_body_16 :: "string \<Rightarrow> string" where
  "warning_body_16 accessTimeFormatted =
     ''Claude Code Countdown: Heads up - your access returns in about 5 minutes (''
     @ accessTimeFormatted
     @ '' UTC). Get ready to code! - claudecodecountdown.com''"

definition restored_body_16 :: string where
  "restored_body_16 =
     ''Claude Code Countdown: Your access has been restored. Time to get back to coding! - claudecodecountdown.com''"

text \<open>The two arguments of \<open>create\<close>.\<close>

definition warningRequest :: "Env \<Rightarrow> (int \<Rightarrow> string) \<Rightarrow> ScheduleParams \<Rightarrow> MessageCreateOptions" where
  "warningRequest env toLocaleTimeString params =
     \<lparr>body = warning_body_16 (toLocaleTimeString (accessTime params)),
      from_number = None,
      messagingServiceSid = Some (TWILIO_MESSAGING_SERVICE_SID env),
      to_number = phoneNumber params,
      scheduleType = ''fixed'',
      sendAt = accessTime params - 5 * 60 * 1000\<rparr>"

definition accessRequest :: "Env \<Rightarrow> ScheduleParams \<Rightarrow> MessageCreateOptions" where
  "accessRequest env params =
     \<lparr>body = restored_body_16,
      from_number = None,
      messagingServiceSid = Some (TWILIO_MESSAGING_SERVICE_SID env),
      to_number = phoneNumber params,
      scheduleType = ''fixed'',
      sendAt = accessTime params\<rparr>"

definition scheduleAccessNotifications ::
  "Env \<Rightarrow> (MessageCreateOptions \<Rightarrow> thrown + string) \<Rightarrow> (int \<Rightarrow> string) \<Rightarrow> int \<Rightarrow>
   ScheduleParams \<Rightarrow> ScheduleResult \<times> MessageCreateOptions list" where
  "scheduleAccessNotifications env create toLocaleTimeString now params =
     (if TWILIO_ACCOUNT_SID env = [] \<or> TWILIO_AUTH_TOKEN env = [] then
        (failure_result
           ''Twilio credentials not configured. Please set TWILIO_ACCOUNT_SID and TWILIO_AUTH_TOKEN.'',
         [])
      else if TWILIO_MESSAGING_SERVICE_SID env = [] then
        (failure_result
           ''TWILIO_MESSAGING_SERVICE_SID not configured. Scheduled messages require a Messaging Service. Create one at https://console.twilio.com/us1/develop/sms/services'',
         [])
      else
        (let fiveMinutesBefore = accessTime params - 5 * 60 * 1000;
             minimumScheduleTime = now + 16 * 60 * 1000;
             warning = warningRequest env toLocaleTimeString params;
             access = accessRequest env params
         in case (if fiveMinutesBefore \<ge> minimumScheduleTime then
                    (case create warning of
                       Inl e \<Rightarrow> Inl (e, [warning])
                     | Inr sid \<Rightarrow>
                         Inr ([sid],
                              [\<lparr>message_type = ''5-minute warning'',
                                scheduledFor = toISOString fiveMinutesBefore\<rparr>],
                              [warning]))
                  else Inr ([], [], [])) of
              Inl (e, calls) \<Rightarrow> (catch_result e, calls)
            | Inr (ids1, sms1, calls1) \<Rightarrow>
                (case (if accessTime params \<ge> minimumScheduleTime then
                         (case create access of
                            Inl e \<Rightarrow> Inl (e, calls1 @ [access])
                          | Inr sid \<Rightarrow>
                              Inr (ids1 @ [sid],
                                   sms1 @ [\<lparr>message_type = ''access restored'',
                                            scheduledFor = toISOString (accessTime params)\<rparr>],
                                   calls1 @ [access]))
                       else Inr (ids1, sms1, calls1)) of
                   Inl (e, calls) \<Rightarrow> (catch_result e, calls)
                 | Inr (ids, sms, calls) \<Rightarrow>
                     if length ids = 0 then
                       (failure_result
                          ''The selected time must be at least 16 minutes in the future for scheduled messages.'',
                        calls)
                     else
                       (\<lparr>success = True, messageIds = Some ids, scheduledMessages = Some sms,
                         error = None\<rparr>,
                        calls))))"

subsection \<open>The two earlier revisions\<close>

text \<open>
  Their message texts begin with an emoji (ALARM CLOCK, PARTY POPPER) and carry the
  access time formatted by \<^verbatim>\<open>toLocaleString\<close>; they return no \<open>scheduledMessages\<close>.
\<close>

definition alarm_clock :: string where
  "alarm_clock = [CHR 0xE2, CHR 0x8F, CHR 0xB0]"

definition party_popper :: string where
  "party_popper = [CHR 0xF0, CHR 0x9F, CHR 0x8E, CHR 0x89]"

definition warning_body_emoji :: "string \<Rightarrow> string" where
  "warning_body_emoji accessTimeFormatted =
     alarm_clock @ '' Claude Code Access Alert: Your access will be restored in 5 MINUTES! (''
     @ accessTimeFormatted @ '' UTC)''"

definition restored_body_emoji :: "string \<Rightarrow> string" where
  "restored_body_emoji accessTimeFormatted =
     party_popper @ '' Claude Code Access RESTORED! You can now use Claude Code again. Time: ''
     @ accessTimeFormatted @ '' UTC''"

text \<open>
  The body of the \<^verbatim>\<open>try\<close> block of the two earlier revisions, which differ in the
  instant \<open>threshold\<close> that a message must be strictly after (\<open>now\<close>, or \<open>now\<close> plus 15
  minutes), in the sender and in the text of the last error.  The warning is sent at
  \<open>fiveMinutesBefore\<close>, the access time less five minutes.
\<close>

definition try_block_strict ::
  "(MessageCreateOptions \<Rightarrow> thrown + string) \<Rightarrow> MessageCreateOptions \<Rightarrow> MessageCreateOptions \<Rightarrow>
   int \<Rightarrow> string \<Rightarrow> ScheduleResult \<times> MessageCreateOptions list" where
  "try_block_strict create warning access threshold emptyError =
     (case (if sendAt warning > threshold then
              (case create warning of
                 Inl e \<Rightarrow> Inl (e, [warning])
               | Inr sid \<Rightarrow> Inr ([sid], [warning]))
            else Inr ([], [])) of
        Inl (e, calls) \<Rightarrow> (catch_result e, calls)
      | Inr (ids1, calls1) \<Rightarrow>
          (case (if sendAt access > threshold then
                   (case create access of
                      Inl e \<Rightarrow> Inl (e, calls1 @ [access])
                    | Inr sid \<Rightarrow> Inr (ids1 @ [sid], calls1 @ [access]))
                 else Inr (ids1, calls1)) of
             Inl (e, calls) \<Rightarrow> (catch_result e, calls)
           | Inr (ids, calls) \<Rightarrow>
               if length ids = 0 then (failure_result emptyError, calls)
               else (\<lparr>success = True, messageIds = Some ids, scheduledMessages = None,
                      error = None\<rparr>,
                     calls)))"

text \<open>\<^verbatim>\<open>src/lib/twilio.ts\<close>: sends from a phone number; a message must be after \<open>now\<close>.\<close>

definition warningRequest_lib :: "Env \<Rightarrow> (int \<Rightarrow> string) \<Rightarrow> ScheduleParams \<Rightarrow> MessageCreateOptions" where
  "warningRequest_lib env toLocaleString params =
     \<lparr>body = warning_body_emoji (toLocaleString (accessTime params)),
      from_number = Some (TWILIO_PHONE_NUMBER env),
      messagingServiceSid = None,
      to_number = phoneNumber params,
      scheduleType = ''fixed'',
      sendAt = accessTime params - 5 * 60 * 1000\<rparr>"

definition accessRequest_lib :: "Env \<Rightarrow> (int \<Rightarrow> string) \<Rightarrow> ScheduleParams \<Rightarrow> MessageCreateOptions" where
  "accessRequest_lib env toLocaleString params =
     \<lparr>body = restored_body_emoji (toLocaleString (accessTime params)),
      from_number = Some (TWILIO_PHONE_NUMBER env),
      messagingServiceSid = None,
      to_number = phoneNumber params,
      scheduleType = ''fixed'',
      sendAt = accessTime params\<rparr>"

definition scheduleAccessNotifications_lib ::
  "Env \<Rightarrow> (MessageCreateOptions \<Rightarrow> thrown + string) \<Rightarrow> (int \<Rightarrow> string) \<Rightarrow> int \<Rightarrow>
   ScheduleParams \<Rightarrow> ScheduleResult \<times> MessageCreateOptions list" where
  "scheduleAccessNotifications_lib env create toLocaleString now params =
     (if TWILIO_ACCOUNT_SID env = [] \<or> TWILIO_AUTH_TOKEN env = [] \<or> TWILIO_PHONE_NUMBER env = [] then
        (failure_result
           ''Twilio credentials not configured. Please set TWILIO_ACCOUNT_SID, TWILIO_AUTH_TOKEN, and TWILIO_PHONE_NUMBER in your environment variables.'',
         [])
      else
        try_block_strict create
          (warningRequest_lib env toLocaleString params)
          (accessRequest_lib env toLocaleString params)
          now
          ''The selected time is in the past. Please choose a future time.'')"

text \<open>The revision with the 15 minute lead: sends through a messaging service.\<close>

definition warningRequest_15 :: "Env \<Rightarrow> (int \<Rightarrow> string) \<Rightarrow> ScheduleParams \<Rightarrow> MessageCreateOptions" where
  "warningRequest_15 env toLocaleString params =
     \<lparr>body = warning_body_emoji (toLocaleString (accessTime params)),
      from_number = None,
      messagingServiceSid = Some (TWILIO_MESSAGING_SERVICE_SID env),
      to_number = phoneNumber params,
      scheduleType = ''fixed'',
      sendAt = accessTime params - 5 * 60 * 1000\<rparr>"

definition accessRequest_15 :: "Env \<Rightarrow> (int \<Rightarrow> string) \<Rightarrow> ScheduleParams \<Rightarrow> MessageCreateOptions" where
  "accessRequest_15 env toLocaleString params =
     \<lparr>body = restored_body_emoji (toLocaleString (accessTime params)),
      from_number = None,
      messagingServiceSid = Some (TWILIO_MESSAGING_SERVICE_SID env),
      to_number = phoneNumber params,
      scheduleType = ''fixed'',
      sendAt = accessTime params\<rparr>"

definition scheduleAccessNotifications_15 ::
  "Env \<Rightarrow> (MessageCreateOptions \<Rightarrow> thrown + string) \<Rightarrow> (int \<Rightarrow> string) \<Rightarrow> int \<Rightarrow>
   ScheduleParams \<Rightarrow> ScheduleResult \<times> MessageCreateOptions list" where
  "scheduleAccessNotifications_15 env create toLocaleString now params =
     (if TWILIO_ACCOUNT_SID env = [] \<or> TWILIO_AUTH_TOKEN env = [] then
        (failure_result
           ''Twilio credentials not configured. Please set TWILIO_ACCOUNT_SID and TWILIO_AUTH_TOKEN.'',
         [])
      else if TWILIO_MESSAGING_SERVICE_SID env = [] then
        (failure_result
           ''TWILIO_MESSAGING_SERVICE_SID not configured. Scheduled messages require a Messaging Service. Create one at https://console.twilio.com/us1/develop/sms/services'',
         [])
      else
        (let fifteenMinutesFromNow = now + 15 * 60 * 1000
         in try_block_strict create
              (warningRequest_15 env toLocaleString params)
              (accessRequest_15 env toLocaleString params)
              fifteenMinutesFromNow
              ''The selected time must be at least 15 minutes in the future for scheduled messages.''))"

section \<open>The scheduling endpoint\<close>

text \<open>
  \<open>POST\<close> of \<^verbatim>\<open>api/schedule-sms/route.ts\<close>.  The outcome of \<^verbatim>\<open>await request.json()\<close>
  is the request: the promise rejects, or the JSON text is \<open>null\<close> (reading a property
  of it throws a \<open>TypeError\<close>), or it is a value whose three properties are read.  A
  property that is present is a string, as the interface \<open>ScheduleRequest\<close> declares;
  one that is absent is \<open>None\<close>.

  \<open>sched\<close> is the function imported from \<^verbatim>\<open>@/lib/twilio\<close>; the handler awaits it
  inside its \<^verbatim>\<open>try\<close> block, so it may return a result or throw.  \<open>Date_parse\<close> is the host's
  reading of a date string (\<open>None\<close> for an invalid date) and \<open>LocalTZA\<close> its local time
  zone adjustment, used by \<^verbatim>\<open>setDate\<close>.  \<open>now1\<close> and \<open>now2\<close> are the time values of the two
  \<^verbatim>\<open>new Date()\<close> of the handler, in order.  The handler returns its response and the
  arguments of the calls it made to \<open>sched\<close>.
\<close>

record ScheduleRequest =
  body_phoneNumber :: "string option"
  body_accessTime :: "string option"
  body_timezone :: "string option"

datatype RequestJson =
    JsonRejects thrown
  | JsonNull
  | JsonValue ScheduleRequest

text \<open>
  The response bodies: \<^verbatim>\<open>{ success: false, error }\<close> and
  \<^verbatim>\<open>{ success: true, message, messageIds }\<close>.
\<close>

datatype ResponseJson =
    Failure "string option"
  | Success string "string list option"

record Response =
  status :: nat
  json :: ResponseJson


text \<open>\<^verbatim>\<open>/^\+[1-9]\d{1,14}$/.test(s)\<close>\<close>

definition phoneRegex_test :: "string \<Rightarrow> bool" where
  "phoneRegex_test s =
     (case s of
        c # d # ds \<Rightarrow>
          c = CHR ''+'' \<and> isDigit d \<and> d \<noteq> CHR ''0'' \<and>
          1 \<le> length ds \<and> length ds \<le> 14 \<and> list_all isDigit ds
      | _ \<Rightarrow> False)"

definition LocalTime :: "(int \<Rightarrow> bool \<Rightarrow> int) \<Rightarrow> int \<Rightarrow> int" where
  "LocalTime LocalTZA t = t + LocalTZA t True"

definition UTC_time :: "(int \<Rightarrow> bool \<Rightarrow> int) \<Rightarrow> int \<Rightarrow> int" where
  "UTC_time LocalTZA t = t - LocalTZA t False"

text \<open>\<^verbatim>\<open>d.setDate(d.getDate() + 7)\<close> on a date with time value \<open>t\<close>: the new time value.\<close>

definition sevenDaysFromNow :: "(int \<Rightarrow> bool \<Rightarrow> int) \<Rightarrow> int \<Rightarrow> int" where
  "sevenDaysFromNow LocalTZA t =
     (let l = LocalTime LocalTZA t
      in UTC_time LocalTZA
           (MakeDate (MakeDay (YearFromTime l) (MonthFromTime l) (DateFromTime l + 7))
              (TimeWithinDay l)))"

text \<open>The message of V8 for reading \<open>phoneNumber\<close> of \<open>null\<close>.\<close>

definition null_property_message :: string where
  "null_property_message = ''Cannot read properties of null (reading '' @ [CHR 0x27] @ ''phoneNumber'' @ [CHR 0x27] @ '')''"

definition route_errorMessage :: "thrown \<Rightarrow> string" where
  "route_errorMessage e = (case e of Error_object m \<Rightarrow> m | Other_value \<Rightarrow> ''Unknown error'')"

definition server_error :: "thrown \<Rightarrow> Response" where
  "server_error e = \<lparr>status = 500, json = Failure (Some (''Server error: '' @ route_errorMessage e))\<rparr>"

definition POST ::
  "(ScheduleParams \<Rightarrow> thrown + ScheduleResult) \<Rightarrow> (string \<Rightarrow> int option) \<Rightarrow>
   (int \<Rightarrow> bool \<Rightarrow> int) \<Rightarrow>
   int \<Rightarrow> int \<Rightarrow> RequestJson \<Rightarrow> Response \<times> ScheduleParams list" where
  "POST sched Date_parse LocalTZA now1 now2 request =
     (case request of
        JsonRejects e \<Rightarrow> (server_error e, [])
      | JsonNull \<Rightarrow> (server_error (Error_object null_property_message), [])
      | JsonValue b \<Rightarrow>
          (case (body_phoneNumber b, body_accessTime b, body_timezone b) of
             (Some phone, Some time, Some tz) \<Rightarrow>
               if phone = [] \<or> time = [] \<or> tz = [] then
                 (\<lparr>status = 400,
                   json = Failure (Some ''Missing required fields: phoneNumber, accessTime, timezone'')\<rparr>,
                  [])
               else if \<not> phoneRegex_test phone then
                 (\<lparr>status = 400,
                   json = Failure (Some ''Invalid phone number format. Use E.164 format (e.g., +1234567890)'')\<rparr>,
                  [])
               else
                 (case Date_parse time of
                    None \<Rightarrow>
                      (\<lparr>status = 400,
                        json = Failure (Some ''Invalid access time format. Use ISO 8601 format.'')\<rparr>,
                       [])
                  | Some accessTime0 \<Rightarrow>
                      if accessTime0 \<le> now1 then
                        (\<lparr>status = 400,
                          json = Failure (Some ''Access time must be in the future.'')\<rparr>,
                         [])
                      else if accessTime0 > sevenDaysFromNow LocalTZA now2 then
                        (\<lparr>status = 400,
                          json = Failure (Some ''Access time must be within 7 days from now (Twilio limitation).'')\<rparr>,
                         [])
                      else
                        (let params = \<lparr>phoneNumber = phone, accessTime = accessTime0, timezone = tz\<rparr>
                         in case sched params of
                              Inl e \<Rightarrow> (server_error e, [params])
                            | Inr result \<Rightarrow>
                                if success result then
                                  (\<lparr>status = 200,
                                    json = Success ''SMS notifications scheduled successfully!''
                                             (messageIds result)\<rparr>,
                                   [params])
                                else
                                  (\<lparr>status = 500, json = Failure (error result)\<rparr>, [params])))
           | _ \<Rightarrow>
               (\<lparr>status = 400,
                 json = Failure (Some ''Missing required fields: phoneNumber, accessTime, timezone'')\<rparr>,
                [])))"

section \<open>The accepted time texts, as the specification describes them\<close>

text \<open>
  The specification's form \<open>H[:MM](am|pm)\<close>: \<open>H\<close> is an hour of one or two digits,
  \<open>MM\<close> a minute of two digits, followed by \<open>am\<close> or \<open>pm\<close>.  \<open>time_text pad h mm per\<close>
  writes it out; \<open>pad\<close> tells whether an hour below ten is written with a leading zero.
\<close>

definition two_digits :: "nat \<Rightarrow> string" where
  "two_digits n = [digit_char (n div 10), digit_char (n mod 10)]"

definition H_text :: "bool \<Rightarrow> nat \<Rightarrow> string" where
  "H_text pad h = (if h < 10 \<and> \<not> pad then [digit_char h] else two_digits h)"

definition time_text :: "bool \<Rightarrow> nat \<Rightarrow> nat option \<Rightarrow> string \<Rightarrow> string" where
  "time_text pad h mm per =
     H_text pad h @ (case mm of None \<Rightarrow> [] | Some m \<Rightarrow> CHR '':'' # two_digits m) @ per"

text \<open>
  The specification's table of the 24-hour value of a 12-hour hour: \<open>12am\<close> is 0,
  \<open>1am\<close>..\<open>11am\<close> are 1..11, \<open>12pm\<close> is 12, \<open>1pm\<close>..\<open>11pm\<close> are 13..23.
\<close>

definition reference_hour :: "string \<Rightarrow> nat \<Rightarrow> nat" where
  "reference_hour per h =
     (if per = ''am'' then [1, 2, 3, 4, 5, 6, 7, 8, 9, 10, 11, 0] ! (h - 1)
      else [13, 14, 15, 16, 17, 18, 19, 20, 21, 22, 23, 12] ! (h - 1))"

definition valid_H :: "nat \<Rightarrow> bool" where
  "valid_H h = (1 \<le> h \<and> h \<le> 12)"

definition valid_MM :: "nat option \<Rightarrow> bool" where
  "valid_MM mm = (case mm of None \<Rightarrow> True | Some m \<Rightarrow> m \<le> 59)"

definition meridiem :: "string \<Rightarrow> bool" where
  "meridiem per = (per = ''am'' \<or> per = ''pm'')"

definition MM_value :: "nat option \<Rightarrow> nat" where
  "MM_value mm = (case mm of None \<Rightarrow> 0 | Some m \<Rightarrow> m)"

text \<open>
  The candidate instant of the anchoring rule: the day of \<open>now\<close> at the parsed hour and
  minute, second 0.
\<close>

definition candidate :: "int \<Rightarrow> ClockTime \<Rightarrow> int" where
  "candidate now p = MakeDate (Day now) (MakeTime (int (hours p)) (int (minutes p)) 0 0)"

section \<open>The scheduler's result and the endpoint's input, as the specification describes them\<close>

text \<open>
  A result of the scheduler is well formed when a success carries one or two
  identifiers and no error, and a failure carries a non-empty error and no identifiers.
\<close>

definition ScheduleResult_ok :: "ScheduleResult \<Rightarrow> bool" where
  "ScheduleResult_ok r =
     (if success r then
        (case messageIds r of
           None \<Rightarrow> False
         | Some ids \<Rightarrow> (length ids = 1 \<or> length ids = 2) \<and> error r = None)
      else
        (case error r of
           None \<Rightarrow> False
         | Some m \<Rightarrow> m \<noteq> [] \<and> messageIds r = None))"





section \<open>A host for the examples\<close>

text \<open>
  A configured environment, a provider that accepts every message, one that rejects
  the message to be sent at a given instant, and a 12-hour clock format.
\<close>

definition example_env :: Env where
  "example_env =
     \<lparr>TWILIO_ACCOUNT_SID = ''AC00000000000000000000000000000000'',
      TWILIO_AUTH_TOKEN = ''token'',
      TWILIO_PHONE_NUMBER = ''+15005550006'',
      TWILIO_MESSAGING_SERVICE_SID = ''MG00000000000000000000000000000000''\<rparr>"

definition example_params :: "int \<Rightarrow> ScheduleParams" where
  "example_params t = \<lparr>phoneNumber = ''+15551234567'', accessTime = t, timezone = ''UTC''\<rparr>"

definition accepts_all :: "MessageCreateOptions \<Rightarrow> thrown + string" where
  "accepts_all r = Inr ''SM00000000000000000000000000000001''"

definition rejects_at :: "int \<Rightarrow> MessageCreateOptions \<Rightarrow> thrown + string" where
  "rejects_at t r =
     (if sendAt r = t then Inl (Error_object ''Service unavailable'')
      else Inr ''SM00000000000000000000000000000002'')"

text \<open>A provider that rejects a message to be sent before the instant \<open>t\<close>.\<close>

definition rejects_before :: "int \<Rightarrow> MessageCreateOptions \<Rightarrow> thrown + string" where
  "rejects_before t r =
     (if sendAt r < t then Inl (Error_object ''SendAt time must be at least 900 seconds in the future'')
      else Inr ''SM00000000000000000000000000000003'')"

definition example_format :: "int \<Rightarrow> string" where
  "example_format t =
     (let h = nat (HourFromTime t);
          h12 = (if h mod 12 = 0 then 12 else h mod 12)
      in (if h12 < 10 then [digit_char h12] else two_digits h12)
         @ '':'' @ two_digits (nat (MinFromTime t))
         @ (if h < 12 then '' AM'' else '' PM''))"






section \<open>Characters and cleaning\<close>

lemma of_char_digit_char: "n < 10 \<Longrightarrow> (of_char (digit_char n) :: nat) = 48 + n"
  by (simp add: digit_char_def)

lemma isDigit_digit_char: "n < 10 \<Longrightarrow> isDigit (digit_char n)"
  by (simp add: isDigit_def of_char_digit_char)

lemma digit_value_digit_char: "n < 10 \<Longrightarrow> digit_value (digit_char n) = n"
  by (simp add: digit_value_def of_char_digit_char)

lemma digit_char_digit_value: "isDigit c \<Longrightarrow> digit_char (digit_value c) = c"
  by (simp add: isDigit_def digit_char_def digit_value_def Let_def)

lemma digit_value_less: "isDigit c \<Longrightarrow> digit_value c < 10"
  by (auto simp: isDigit_def digit_value_def Let_def)

lemma isDigit_not_space: "isDigit c \<Longrightarrow> \<not> isWhiteSpace c"
  by (auto simp: isDigit_def isWhiteSpace_def Let_def)

lemma isDigit_lower: "isDigit c \<Longrightarrow> toLowerCase_char c = c"
  by (auto simp: isDigit_def toLowerCase_char_def Let_def)

lemma isDigit_not_colon: "isDigit c \<Longrightarrow> c \<noteq> CHR '':''"
  by (auto simp: isDigit_def Let_def)

lemma colon_not_digit: "\<not> isDigit CHR '':''"
  by (simp add: isDigit_def)

lemma toLowerCase_char_idem: "toLowerCase_char (toLowerCase_char c) = toLowerCase_char c"
  by (auto simp: toLowerCase_char_def Let_def)

lemma isWhiteSpace_lower: "isWhiteSpace (toLowerCase_char c) = isWhiteSpace c"
  by (auto simp: toLowerCase_char_def isWhiteSpace_def Let_def)

lemma trim_Nil_iff: "trim s = [] \<longleftrightarrow> (\<forall>c\<in>set s. isWhiteSpace c)"
proof
  assume "trim s = []"
  then have "dropWhile isWhiteSpace (rev (dropWhile isWhiteSpace s)) = []"
    by (simp add: trim_def)
  then have "\<forall>c\<in>set (rev (dropWhile isWhiteSpace s)). isWhiteSpace c"
    by (simp add: dropWhile_eq_Nil_conv)
  then have "dropWhile isWhiteSpace s = []"
    by (metis dropWhile_eq_Nil_conv hd_dropWhile hd_in_set set_rev)
  then show "\<forall>c\<in>set s. isWhiteSpace c"
    by (simp add: dropWhile_eq_Nil_conv)
next
  assume "\<forall>c\<in>set s. isWhiteSpace c"
  then show "trim s = []"
    by (auto simp: trim_def dropWhile_eq_Nil_conv dest: set_dropWhileD)
qed

lemma set_trim_subset: "set (trim s) \<subseteq> set s"
  by (auto simp: trim_def dest!: set_dropWhileD)

lemma cleaned_Nil_iff: "cleaned s = [] \<longleftrightarrow> trim s = []"
proof
  assume a: "cleaned s = []"
  have "\<forall>c\<in>set (trim s). isWhiteSpace c"
  proof
    fix c assume "c \<in> set (trim s)"
    then have "toLowerCase_char c \<in> set (toLowerCase (trim s))"
      by (simp add: toLowerCase_def)
    moreover from a have "\<forall>x\<in>set (toLowerCase (trim s)). isWhiteSpace x"
      by (simp add: cleaned_def remove_whitespace_def filter_empty_conv)
    ultimately have "isWhiteSpace (toLowerCase_char c)"
      by blast
    then show "isWhiteSpace c"
      by (simp add: isWhiteSpace_lower)
  qed
  then have "dropWhile isWhiteSpace (trim s) = []"
    by (simp add: dropWhile_eq_Nil_conv)
  show "trim s = []"
  proof (rule ccontr)
    assume ne: "trim s \<noteq> []"
    then have "rev (trim s) \<noteq> []" by simp
    have "trim s = rev (dropWhile isWhiteSpace (rev (dropWhile isWhiteSpace s)))"
      by (simp add: trim_def)
    then have r: "rev (trim s) = dropWhile isWhiteSpace (rev (dropWhile isWhiteSpace s))"
      by simp
    with ne have "\<not> isWhiteSpace (hd (rev (trim s)))"
      by (metis hd_dropWhile rev_is_Nil_conv)
    moreover have "hd (rev (trim s)) \<in> set (trim s)"
      using ne by (metis hd_in_set rev_is_Nil_conv set_rev)
    ultimately show False
      using \<open>\<forall>c\<in>set (trim s). isWhiteSpace c\<close> by blast
  qed
next
  assume "trim s = []"
  then show "cleaned s = []"
    by (simp add: cleaned_def remove_whitespace_def toLowerCase_def)
qed

lemma cleaned_no_space: "c \<in> set (cleaned s) \<Longrightarrow> \<not> isWhiteSpace c"
  by (simp add: cleaned_def remove_whitespace_def)

lemma cleaned_lower: "c \<in> set (cleaned s) \<Longrightarrow> toLowerCase_char c = c"
  by (auto simp: cleaned_def remove_whitespace_def toLowerCase_def toLowerCase_char_idem)

text \<open>A text without white space in small letters is its own cleaned form.\<close>

lemma trim_id:
  assumes "\<forall>c\<in>set s. \<not> isWhiteSpace c"
  shows "trim s = s"
proof -
  have "dropWhile isWhiteSpace s = s"
    using assms by (cases s) auto
  moreover have "dropWhile isWhiteSpace (rev s) = rev s"
    using assms by (cases "rev s") (auto dest: arg_cong [where f = set])
  ultimately show ?thesis by (simp add: trim_def)
qed

lemma cleaned_id:
  assumes "\<forall>c\<in>set s. \<not> isWhiteSpace c \<and> toLowerCase_char c = c"
  shows "cleaned s = s"
proof -
  have "trim s = s" using assms by (simp add: trim_id)
  moreover have "toLowerCase s = s"
    using assms by (simp add: toLowerCase_def map_idI)
  moreover have "remove_whitespace s = s"
    using assms by (simp add: remove_whitespace_def)
  ultimately show ?thesis by (simp add: cleaned_def)
qed

section \<open>The pattern on the accepted texts\<close>

lemma match_space_period_ampm:
  "per = ''am'' \<or> per = ''pm'' \<Longrightarrow> match_space_period per = Some per"
  by (auto simp: match_space_period_def match_period_def toLowerCase_def toLowerCase_char_def
      isWhiteSpace_def Let_def)

lemma match_minutes_none:
  "per = ''am'' \<or> per = ''pm'' \<Longrightarrow> match_minutes per = Some (None, per)"
  using match_space_period_ampm [of per] by (auto simp: match_minutes_def)

lemma match_minutes_some:
  "per = ''am'' \<or> per = ''pm'' \<Longrightarrow> isDigit a \<Longrightarrow> isDigit b \<Longrightarrow>
   match_minutes (CHR '':'' # a # b # per) = Some (Some [a, b], per)"
  using match_space_period_ampm [of per] by (auto simp: match_minutes_def)

lemma time_regex_two:
  "isDigit d1 \<Longrightarrow> isDigit d2 \<Longrightarrow> match_minutes r = Some (m, p) \<Longrightarrow>
   time_regex (d1 # d2 # r) = Some ([d1, d2], m, p)"
  by (simp add: time_regex_def)

lemma time_regex_one:
  "isDigit d1 \<Longrightarrow> \<not> isDigit (hd r) \<Longrightarrow> match_minutes r = Some (m, p) \<Longrightarrow>
   time_regex (d1 # r) = Some ([d1], m, p)"
  by (cases r) (simp_all add: time_regex_def)

lemma match_minutes_text:
  assumes "per = ''am'' \<or> per = ''pm''" "\<forall>m. mm = Some m \<longrightarrow> m \<le> 59"
  shows "match_minutes ((case mm of None \<Rightarrow> [] | Some m \<Rightarrow> CHR '':'' # two_digits m) @ per)
         = Some (map_option two_digits mm, per)"
proof (cases mm)
  case None
  then show ?thesis using assms by (simp add: match_minutes_none)
next
  case (Some m)
  then have "m \<le> 59" using assms by simp
  then have "isDigit (digit_char (m div 10))" "isDigit (digit_char (m mod 10))"
    by (simp_all add: isDigit_digit_char)
  then show ?thesis
    using Some assms(1) by (simp add: two_digits_def match_minutes_some)
qed

lemma hd_minutes_text_not_digit:
  assumes "per = ''am'' \<or> per = ''pm''"
  shows "\<not> isDigit (hd ((case mm of None \<Rightarrow> [] | Some m \<Rightarrow> CHR '':'' # two_digits m) @ per))"
  using assms by (cases mm) (auto simp: isDigit_def)

lemma parseInt_two_digits: "n < 100 \<Longrightarrow> parseInt (two_digits n) = n"
  by (simp add: parseInt_def two_digits_def digit_value_digit_char)

lemma parseInt_one_digit: "n < 10 \<Longrightarrow> parseInt [digit_char n] = n"
  by (simp add: parseInt_def digit_value_digit_char)

lemma parseInt_H_text: "h < 100 \<Longrightarrow> parseInt (H_text pad h) = h"
  by (simp add: H_text_def parseInt_two_digits parseInt_one_digit)

lemma time_regex_time_text:
  assumes "h < 100" "per = ''am'' \<or> per = ''pm''" "\<forall>m. mm = Some m \<longrightarrow> m \<le> 59"
  shows "time_regex (time_text pad h mm per) = Some (H_text pad h, map_option two_digits mm, per)"
proof -
  let ?r = "(case mm of None \<Rightarrow> [] | Some m \<Rightarrow> CHR '':'' # two_digits m) @ per"
  have mm: "match_minutes ?r = Some (map_option two_digits mm, per)"
    using assms by (simp add: match_minutes_text)
  show ?thesis
  proof (cases "h < 10 \<and> \<not> pad")
    case True
    then have "isDigit (digit_char h)" by (simp add: isDigit_digit_char)
    then have "time_regex (digit_char h # ?r) = Some ([digit_char h], map_option two_digits mm, per)"
      by (rule time_regex_one [OF _ hd_minutes_text_not_digit [OF assms(2)] mm])
    then show ?thesis using True by (simp add: time_text_def H_text_def)
  next
    case False
    have "isDigit (digit_char (h div 10))" "isDigit (digit_char (h mod 10))"
      using assms(1) by (simp_all add: isDigit_digit_char)
    then have "time_regex (digit_char (h div 10) # digit_char (h mod 10) # ?r)
               = Some ([digit_char (h div 10), digit_char (h mod 10)], map_option two_digits mm, per)"
      using mm by (rule time_regex_two)
    moreover have "H_text pad h = [digit_char (h div 10), digit_char (h mod 10)]"
      using False by (auto simp: H_text_def two_digits_def)
    ultimately show ?thesis by (simp add: time_text_def)
  qed
qed

lemma time_text_chars:
  assumes "h < 100" "per = ''am'' \<or> per = ''pm''" "\<forall>m. mm = Some m \<longrightarrow> m \<le> 59"
  shows "\<forall>c\<in>set (time_text pad h mm per). \<not> isWhiteSpace c \<and> toLowerCase_char c = c"
proof -
  have d: "\<not> isWhiteSpace (digit_char n) \<and> toLowerCase_char (digit_char n) = digit_char n"
    if "n < 10" for n
    using that by (simp add: isDigit_digit_char isDigit_not_space isDigit_lower)
  have colon: "\<not> isWhiteSpace CHR '':'' \<and> toLowerCase_char CHR '':'' = CHR '':''"
    by (simp add: isWhiteSpace_def toLowerCase_char_def)
  have per: "\<forall>c\<in>set per. \<not> isWhiteSpace c \<and> toLowerCase_char c = c"
    using assms(2) by (auto simp: isWhiteSpace_def toLowerCase_char_def)
  have H: "\<forall>c\<in>set (H_text pad h). \<not> isWhiteSpace c \<and> toLowerCase_char c = c"
    using assms(1) by (simp add: H_text_def two_digits_def d)
  have M: "\<forall>c\<in>set (case mm of None \<Rightarrow> [] | Some m \<Rightarrow> CHR '':'' # two_digits m).
             \<not> isWhiteSpace c \<and> toLowerCase_char c = c"
    using assms(3) by (cases mm) (simp_all add: two_digits_def d colon)
  show ?thesis
    using H M per by (auto simp: time_text_def)
qed

lemma cleaned_time_text:
  assumes "h < 100" "per = ''am'' \<or> per = ''pm''" "\<forall>m. mm = Some m \<longrightarrow> m \<le> 59"
  shows "cleaned (time_text pad h mm per) = time_text pad h mm per"
  using time_text_chars [OF assms] by (rule cleaned_id)

lemma reference_hour_eq:
  assumes "1 \<le> h" "h \<le> 12"
  shows "reference_hour per h =
         (if per = ''am'' then (if h = 12 then 0 else h) else (if h \<noteq> 12 then h + 12 else h))"
proof -
  from assms consider "h = 1" | "h = 2" | "h = 3" | "h = 4" | "h = 5" | "h = 6" | "h = 7"
    | "h = 8" | "h = 9" | "h = 10" | "h = 11" | "h = 12"
    by (cases "h = 12") (auto simp: le_Suc_eq numeral_eq_Suc)
  then show ?thesis
    by cases (simp_all add: reference_hour_def)
qed

lemma parseTimeString_time_text_aux:
  assumes "1 \<le> h" "h \<le> 12" "per = ''am'' \<or> per = ''pm''" "\<forall>m. mm = Some m \<longrightarrow> m \<le> 59"
    and "M = (case map_option two_digits mm of Some g \<Rightarrow> parseInt g | None \<Rightarrow> 0)"
  shows "parseTimeString (time_text pad h mm per) = Some \<lparr>hours = reference_hour per h, minutes = M\<rparr>"
proof -
  have h: "h < 100" using assms by simp
  have lower: "toLowerCase per = per"
    using assms(3) by (auto simp: toLowerCase_def toLowerCase_char_def)
  have "M \<le> 59"
    using assms(4,5) by (cases mm) (simp_all add: parseInt_two_digits)
  then show ?thesis
    using assms(1,2) unfolding assms(5)
    by (simp add: parseTimeString_def cleaned_time_text [OF h assms(3,4)]
        time_regex_time_text [OF h assms(3,4)] parseInt_H_text lower
        reference_hour_eq [OF assms(1,2)] Let_def del: case_map_option)
qed

lemma parseTimeString_time_text:
  assumes "1 \<le> h" "h \<le> 12" "per = ''am'' \<or> per = ''pm''" "\<forall>m. mm = Some m \<longrightarrow> m \<le> 59"
  shows "parseTimeString (time_text pad h mm per)
         = Some \<lparr>hours = reference_hour per h, minutes = (case mm of None \<Rightarrow> 0 | Some m \<Rightarrow> m)\<rparr>"
proof -
  have "(case mm of None \<Rightarrow> 0 | Some m \<Rightarrow> m)
        = (case map_option two_digits mm of Some g \<Rightarrow> parseInt g | None \<Rightarrow> 0)"
    using assms(4) by (cases mm) (simp_all add: parseInt_two_digits)
  then show ?thesis
    by (rule parseTimeString_time_text_aux [OF assms])
qed

section \<open>The calendar and the anchoring\<close>

text \<open>The year search returns the year of the day, as the ECMAScript specification defines it.\<close>

lemma div_succ:
  fixes n k :: int
  assumes "1 < k"
  shows "(n + 1) div k = n div k + (if (n + 1) mod k = 0 then 1 else 0)"
proof -
  define q where "q = n div k"
  define r where "r = n mod k"
  have n: "n = k * q + r" by (simp add: q_def r_def)
  have r: "0 \<le> r" "r < k" using assms by (simp_all add: r_def)
  show ?thesis
  proof (cases "r = k - 1")
    case True
    then have e: "n + 1 = k * (q + 1) + 0" using n by (simp add: algebra_simps)
    have "(n + 1) div k = q + 1"
      by (rule int_div_pos_eq [OF e]) (use assms in simp_all)
    moreover have "(n + 1) mod k = 0"
      by (rule int_mod_pos_eq [OF e]) (use assms in simp_all)
    ultimately show ?thesis by (simp add: q_def)
  next
    case False
    then have r1: "0 \<le> r + 1" "r + 1 < k" using r by simp_all
    have e: "n + 1 = k * q + (r + 1)" using n by simp
    have "(n + 1) div k = q"
      by (rule int_div_pos_eq [OF e r1])
    moreover have "(n + 1) mod k = r + 1"
      by (rule int_mod_pos_eq [OF e r1])
    ultimately show ?thesis using r by (simp add: q_def)
  qed
qed

lemma mod_0_mono:
  fixes y :: int
  assumes "y mod a = 0" "b dvd a"
  shows "y mod b = 0"
proof -
  from assms(1) have "a dvd y" by (simp add: mod_eq_0_iff_dvd)
  with assms(2) have "b dvd y" by (rule dvd_trans)
  then show ?thesis by (simp add: mod_eq_0_iff_dvd)
qed

lemma DayFromYear_next: "DayFromYear (y + 1) = DayFromYear y + DaysInYear y"
proof -
  have m4: "(y - 1969 + 1) mod 4 = y mod 4"
    using mod_mult_self2 [of y 4 "- 492"] by simp
  have m100: "(y - 1901 + 1) mod 100 = y mod 100"
    using mod_mult_self2 [of y 100 "- 19"] by simp
  have m400: "(y - 1601 + 1) mod 400 = y mod 400"
    using mod_mult_self2 [of y 400 "- 4"] by simp
  have a: "(y + 1 - 1969) div 4 = (y - 1969) div 4 + (if y mod 4 = 0 then 1 else 0)"
    using div_succ [of 4 "y - 1969"] m4 by (simp add: algebra_simps)
  have b: "(y + 1 - 1901) div 100 = (y - 1901) div 100 + (if y mod 100 = 0 then 1 else 0)"
    using div_succ [of 100 "y - 1901"] m100 by (simp add: algebra_simps)
  have c: "(y + 1 - 1601) div 400 = (y - 1601) div 400 + (if y mod 400 = 0 then 1 else 0)"
    using div_succ [of 400 "y - 1601"] m400 by (simp add: algebra_simps)
  have d1: "y mod 4 = 0" if "y mod 100 = 0"
    using that by (rule mod_0_mono) simp
  have d2: "y mod 100 = 0" if "y mod 400 = 0"
    using that by (rule mod_0_mono) simp
  consider "y mod 4 \<noteq> 0" | "y mod 4 = 0" "y mod 100 \<noteq> 0"
    | "y mod 100 = 0" "y mod 400 \<noteq> 0" | "y mod 400 = 0"
    by (cases "y mod 4 = 0"; cases "y mod 100 = 0"; cases "y mod 400 = 0") simp_all
  then show ?thesis
  proof cases
    case 1
    then have "y mod 100 \<noteq> 0" "y mod 400 \<noteq> 0" using d1 d2 by auto
    with 1 show ?thesis unfolding DayFromYear_def DaysInYear_def a b c by simp
  next
    case 2
    then have "y mod 400 \<noteq> 0" using d2 by auto
    with 2 show ?thesis unfolding DayFromYear_def DaysInYear_def a b c by simp
  next
    case 3
    then have "y mod 4 = 0" using d1 by auto
    with 3 show ?thesis unfolding DayFromYear_def DaysInYear_def a b c by simp
  next
    case 4
    then have "y mod 100 = 0" "y mod 4 = 0" using d1 d2 by auto
    with 4 show ?thesis unfolding DayFromYear_def DaysInYear_def a b c by simp
  qed
qed

lemma DaysInYear_range: "DaysInYear y = 365 \<or> DaysInYear y = 366"
  by (simp add: DaysInYear_def)

lemma year_from_spec:
  "DayFromYear y \<le> d \<Longrightarrow>
   DayFromYear (year_from d y) \<le> d \<and> d < DayFromYear (year_from d y + 1)"
proof (induction d y rule: year_from.induct)
  case (1 d y)
  show ?case
  proof (cases "DayFromYear (y + 1) \<le> d")
    case True
    with 1 show ?thesis by (simp add: year_from.simps [of d y])
  next
    case False
    with 1 show ?thesis by (simp add: year_from.simps [of d y])
  qed
qed

lemma div_bounds:
  fixes n k :: int
  assumes "0 < k"
  shows "k * (n div k) \<le> n" and "n < k * (n div k) + k"
proof -
  have "n = k * (n div k) + n mod k" by simp
  moreover have "0 \<le> n mod k" "n mod k < k" using assms by simp_all
  ultimately show "k * (n div k) \<le> n" and "n < k * (n div k) + k" by linarith+
qed

lemma year_estimate_leap:
  fixes k :: int
  shows "(if 0 \<le> k then (k + 1) div 4 - (k + 69) div 100 + (k + 369) div 400 \<le> k
          else (k + 1) div 4 - (k + 69) div 100 + (k + 369) div 400 \<le> 0)"
proof -
  define a where "a = (k + 1) div 4"
  define b where "b = (k + 69) div 100"
  define c where "c = (k + 369) div 400"
  have a: "4 * a \<le> k + 1" "k + 1 < 4 * a + 4"
    unfolding a_def by (rule div_bounds, simp)+
  have b: "100 * b \<le> k + 69" "k + 69 < 100 * b + 100"
    unfolding b_def by (rule div_bounds, simp)+
  have c: "400 * c \<le> k + 369" "k + 369 < 400 * c + 400"
    unfolding c_def by (rule div_bounds, simp)+
  consider "2 \<le> k" | "k = 0" | "k = 1" | "k = - 1" | "k = - 2" | "k = - 3" | "k = - 4"
    | "k = - 5" | "k = - 6" | "k \<le> - 7"
    by linarith
  then show ?thesis
  proof cases
    case 1
    then have "a - b + c \<le> k" using a b c by linarith
    with 1 show ?thesis unfolding a_def b_def c_def by simp
  next
    case 10
    then have "a - b + c \<le> 0" using a b c by linarith
    with 10 show ?thesis unfolding a_def b_def c_def by simp
  qed simp_all
qed

lemma year_estimate:
  "DayFromYear (1970 + (if 0 \<le> d then d div 366 else d div 365)) \<le> d"
proof (cases "0 \<le> d")
  case True
  define k where "k = d div 366"
  have k: "0 \<le> k" "366 * k \<le> d"
    using True div_bounds(1) [of 366 d] by (simp_all add: k_def pos_imp_zdiv_nonneg_iff)
  from year_estimate_leap [of k] k(1)
  have "(k + 1) div 4 - (k + 69) div 100 + (k + 369) div 400 \<le> k" by simp
  moreover have "DayFromYear (1970 + k)
                 = 365 * k + ((k + 1) div 4 - (k + 69) div 100 + (k + 369) div 400)"
    by (simp add: DayFromYear_def algebra_simps)
  ultimately have "DayFromYear (1970 + k) \<le> 366 * k" by linarith
  with k(2) True show ?thesis by (simp add: k_def)
next
  case False
  define k where "k = d div 365"
  have k: "k < 0" "365 * k \<le> d"
    using False div_bounds(1) [of 365 d] by (simp_all add: k_def div_neg_pos_less0)
  from year_estimate_leap [of k] k(1)
  have "(k + 1) div 4 - (k + 69) div 100 + (k + 369) div 400 \<le> 0" by simp
  moreover have "DayFromYear (1970 + k)
                 = 365 * k + ((k + 1) div 4 - (k + 69) div 100 + (k + 369) div 400)"
    by (simp add: DayFromYear_def algebra_simps)
  ultimately have "DayFromYear (1970 + k) \<le> 365 * k" by linarith
  with k(2) False show ?thesis by (simp add: k_def)
qed

lemma YearFromTime_spec:
  "DayFromYear (YearFromTime t) \<le> Day t \<and> Day t < DayFromYear (YearFromTime t + 1)"
  unfolding YearFromTime_def Let_def by (rule year_from_spec [OF year_estimate])

lemma DayWithinYear_range:
  "0 \<le> DayWithinYear t \<and> DayWithinYear t < DaysInYear (YearFromTime t)"
  using YearFromTime_spec [of t] DayFromYear_next [of "YearFromTime t"]
  by (simp add: DayWithinYear_def)

lemma DateFromTime_range: "1 \<le> DateFromTime t \<and> DateFromTime t \<le> 31"
proof -
  have l: "InLeapYear t = 0 \<and> DaysInYear (YearFromTime t) = 365
           \<or> InLeapYear t = 1 \<and> DaysInYear (YearFromTime t) = 366"
    using DaysInYear_range [of "YearFromTime t"] by (auto simp: InLeapYear_def)
  with DayWithinYear_range [of t] show ?thesis
    by (auto simp: DateFromTime_def MonthFromTime_def MonthStart_def Let_def)
qed

lemma DayFromYear_mono: "y \<le> z \<Longrightarrow> DayFromYear y \<le> DayFromYear z"
proof (induction z rule: int_ge_induct)
  case base
  show ?case by simp
next
  case (step i)
  then show ?case
    using DayFromYear_next [of i] DaysInYear_range [of i] by auto
qed

lemma YearFromTime_largest:
  assumes "DayFromYear y \<le> Day t"
  shows "y \<le> YearFromTime t"
proof (rule ccontr)
  assume "\<not> y \<le> YearFromTime t"
  then have "YearFromTime t + 1 \<le> y" by simp
  then have "DayFromYear (YearFromTime t + 1) \<le> DayFromYear y" by (rule DayFromYear_mono)
  with assms YearFromTime_spec [of t] show False by simp
qed

lemma MonthFromTime_range: "0 \<le> MonthFromTime t \<and> MonthFromTime t \<le> 11"
  by (simp add: MonthFromTime_def Let_def)

lemma MakeDay_of_time:
  "MakeDay (YearFromTime t) (MonthFromTime t) (DateFromTime t + k) = Day t + k"
proof -
  have m: "MonthFromTime t div 12 = 0" "MonthFromTime t mod 12 = MonthFromTime t"
    using MonthFromTime_range [of t] by simp_all
  show ?thesis
    by (simp add: MakeDay_def m DateFromTime_def DayWithinYear_def InLeapYear_def Let_def)
qed

lemma Day_MakeDate:
  assumes "0 \<le> tod" "tod < msPerDay"
  shows "Day (MakeDate d tod) = d" and "TimeWithinDay (MakeDate d tod) = tod"
  using assms by (simp_all add: Day_def TimeWithinDay_def MakeDate_def msPerDay_def)

lemma YearFromTime_Day: "Day t = Day u \<Longrightarrow> YearFromTime t = YearFromTime u"
  by (simp add: YearFromTime_def)

lemma MonthFromTime_Day: "Day t = Day u \<Longrightarrow> MonthFromTime t = MonthFromTime u"
  by (simp add: MonthFromTime_def DayWithinYear_def InLeapYear_def YearFromTime_Day [of t u])

lemma DateFromTime_Day: "Day t = Day u \<Longrightarrow> DateFromTime t = DateFromTime u"
  by (simp add: DateFromTime_def DayWithinYear_def InLeapYear_def YearFromTime_Day [of t u]
      MonthFromTime_Day [of t u])

lemma MakeDate_Day_TimeWithinDay: "MakeDate (Day t) (TimeWithinDay t) = t"
  by (simp add: MakeDate_def Day_def TimeWithinDay_def)

lemma Date_UTC_today:
  "Date_UTC (YearFromTime now) (MonthFromTime now) (DateFromTime now) h m 0
   = MakeDate (Day now) (MakeTime h m 0 0)"
  using MakeDay_of_time [of now 0] by (simp add: Date_UTC_def)

lemma setUTCDate_next: "setUTCDate t (DateFromTime t + 1) = t + msPerDay"
proof -
  have "setUTCDate t (DateFromTime t + 1) = MakeDate (Day t + 1) (TimeWithinDay t)"
    by (simp add: setUTCDate_def MakeDay_of_time)
  also have "\<dots> = MakeDate (Day t) (TimeWithinDay t) + msPerDay"
    by (simp add: MakeDate_def algebra_simps)
  finally show ?thesis by (simp add: MakeDate_Day_TimeWithinDay)
qed

lemma MakeTime_range:
  assumes "0 \<le> h" "h \<le> 23" "0 \<le> m" "m \<le> 59"
  shows "0 \<le> MakeTime h m 0 0" and "MakeTime h m 0 0 < msPerDay"
  using assms by (simp_all add: MakeTime_def msPerHour_def msPerMinute_def msPerDay_def)

lemma parseTimeString_range:
  assumes "parseTimeString s = Some p"
  shows "hours p \<le> 23 \<and> minutes p \<le> 59"
  using assms
  by (auto simp: parseTimeString_def Let_def split: option.splits prod.splits if_splits)

lemma time_regex_Nil: "time_regex [] = None"
  by (simp add: time_regex_def)

lemma parseTimeString_trim:
  assumes "parseTimeString s = Some p"
  shows "trim s \<noteq> []"
proof
  assume "trim s = []"
  then have "cleaned s = []" by (simp add: cleaned_Nil_iff)
  then have "parseTimeString s = None"
    by (simp add: parseTimeString_def time_regex_Nil)
  with assms show False by simp
qed

lemma validateAndParse_accepted:
  assumes "parseTimeString s = Some p"
  shows "validateAndParse s now =
           \<lparr>setError = [], setIsValid = True,
            onTimeChange =
              (Some (if candidate now p \<le> now then candidate now p + msPerDay else candidate now p),
               True)\<rparr>"
  using parseTimeString_trim [OF assms]
  by (simp add: validateAndParse_def assms Date_UTC_today setUTCDate_next candidate_def Let_def)

lemma Day_bounds: "Day t * msPerDay \<le> t \<and> t < Day t * msPerDay + msPerDay"
  by (simp add: Day_def msPerDay_def) presburger

lemma candidate_future:
  assumes "hours p \<le> 23" "minutes p \<le> 59"
  shows "now < (if candidate now p \<le> now then candidate now p + msPerDay else candidate now p)"
proof -
  have "0 \<le> MakeTime (int (hours p)) (int (minutes p)) 0 0"
    using assms by (intro MakeTime_range) simp_all
  then have "Day now * msPerDay \<le> candidate now p"
    by (simp add: candidate_def MakeDate_def)
  then show ?thesis using Day_bounds [of now] by auto
qed

section \<open>What the pattern accepts\<close>

lemma match_space_period_clean:
  assumes "match_space_period r = Some p"
    and "\<forall>x\<in>set r. \<not> isWhiteSpace x \<and> toLowerCase_char x = x"
  shows "p = r \<and> (r = ''am'' \<or> r = ''pm'')"
proof -
  have d: "dropWhile isWhiteSpace r = r"
    using assms(2) by (cases r) auto
  have l: "toLowerCase r = r"
    using assms(2) by (simp add: toLowerCase_def map_idI)
  show ?thesis
    using assms(1) by (auto simp: match_space_period_def match_period_def d l split: if_splits)
qed

lemma match_minutes_clean:
  assumes "match_minutes r = Some (g2, p)"
    and "\<forall>x\<in>set r. \<not> isWhiteSpace x \<and> toLowerCase_char x = x"
  shows "(p = ''am'' \<or> p = ''pm'') \<and>
         ((g2 = None \<and> r = p) \<or>
          (\<exists>a b. isDigit a \<and> isDigit b \<and> g2 = Some [a, b] \<and> r = CHR '':'' # a # b # p))"
proof (cases "\<exists>a b r'. r = CHR '':'' # a # b # r' \<and> isDigit a \<and> isDigit b \<and> match_space_period r' \<noteq> None")
  case True
  then obtain a b r' q where r: "r = CHR '':'' # a # b # r'" and ab: "isDigit a" "isDigit b"
    and q: "match_space_period r' = Some q" by auto
  from assms(2) r have "\<forall>x\<in>set r'. \<not> isWhiteSpace x \<and> toLowerCase_char x = x" by simp
  from match_space_period_clean [OF q this] have "q = r'" "r' = ''am'' \<or> r' = ''pm''" by simp_all
  moreover from assms(1) r ab q have "g2 = Some [a, b]" "p = q"
    by (simp_all add: match_minutes_def)
  ultimately show ?thesis using r ab by auto
next
  case False
  then have "(case r of c # d1 # d2 # r' \<Rightarrow>
                if c = CHR '':'' \<and> isDigit d1 \<and> isDigit d2
                then map_option (\<lambda>p. (Some [d1, d2], p)) (match_space_period r')
                else None
              | _ \<Rightarrow> None) = None"
    by (auto split: list.splits)
  with assms(1) have "map_option (\<lambda>p. (None :: string option, p)) (match_space_period r) = Some (g2, p)"
    by (simp add: match_minutes_def)
  then have g: "g2 = None" and m: "match_space_period r = Some p" by auto
  from match_space_period_clean [OF m assms(2)] g show ?thesis by auto
qed

lemma time_regex_clean:
  assumes "time_regex c = Some (g1, g2, g3)"
    and "\<forall>x\<in>set c. \<not> isWhiteSpace x \<and> toLowerCase_char x = x"
  shows "(g3 = ''am'' \<or> g3 = ''pm'') \<and>
         ((\<exists>d. isDigit d \<and> g1 = [d]) \<or> (\<exists>d1 d2. isDigit d1 \<and> isDigit d2 \<and> g1 = [d1, d2])) \<and>
         (g2 = None \<or> (\<exists>a b. isDigit a \<and> isDigit b \<and> g2 = Some [a, b])) \<and>
         c = g1 @ (case g2 of None \<Rightarrow> [] | Some g \<Rightarrow> CHR '':'' # g) @ g3"
proof -
  from assms(1) obtain d1 r1 where c: "c = d1 # r1" and d1: "isDigit d1"
    by (auto simp: time_regex_def split: list.splits if_splits)
  show ?thesis
  proof (cases "\<exists>d2 r2. r1 = d2 # r2 \<and> isDigit d2 \<and> match_minutes r2 \<noteq> None")
    case True
    then obtain d2 r2 m p where r1: "r1 = d2 # r2" and d2: "isDigit d2"
      and mm: "match_minutes r2 = Some (m, p)" by auto
    from assms(1) c d1 r1 d2 mm have g: "g1 = [d1, d2]" "g2 = m" "g3 = p"
      by (simp_all add: time_regex_def)
    from assms(2) c r1 have "\<forall>x\<in>set r2. \<not> isWhiteSpace x \<and> toLowerCase_char x = x" by simp
    from match_minutes_clean [OF mm this] show ?thesis
      using g c r1 d1 d2 by auto
  next
    case False
    then have "(case r1 of
                  d2 # r2 \<Rightarrow>
                    if isDigit d2
                    then map_option (\<lambda>(m, p). ([d1, d2], m, p)) (match_minutes r2)
                    else None
                | [] \<Rightarrow> None) = None"
    proof (cases r1)
      case Nil
      then show ?thesis by simp
    next
      case (Cons d2 r2)
      with False have "\<not> isDigit d2 \<or> match_minutes r2 = None" by blast
      then show ?thesis using Cons by auto
    qed
    with assms(1) c d1 have "map_option (\<lambda>(m, p). ([d1], m, p)) (match_minutes r1) = Some (g1, g2, g3)"
      by (simp add: time_regex_def)
    then have g: "g1 = [d1]" and mm: "match_minutes r1 = Some (g2, g3)" by auto
    from assms(2) c have "\<forall>x\<in>set r1. \<not> isWhiteSpace x \<and> toLowerCase_char x = x" by simp
    from match_minutes_clean [OF mm this] show ?thesis
      using g c d1 by auto
  qed
qed

lemma two_digits_parseInt:
  assumes "isDigit a" "isDigit b"
  shows "two_digits (parseInt [a, b]) = [a, b]"
proof -
  have "digit_value a < 10" "digit_value b < 10"
    using assms by (simp_all add: digit_value_less)
  then have "(10 * digit_value a + digit_value b) div 10 = digit_value a"
    "(10 * digit_value a + digit_value b) mod 10 = digit_value b"
    by simp_all
  then show ?thesis
    using assms by (simp add: two_digits_def parseInt_def digit_char_digit_value)
qed

lemma H_text_parseInt:
  assumes "(\<exists>d. isDigit d \<and> g1 = [d]) \<or> (\<exists>d1 d2. isDigit d1 \<and> isDigit d2 \<and> g1 = [d1, d2])"
  shows "H_text (length g1 = 2) (parseInt g1) = g1"
  using assms
proof (elim disjE exE conjE)
  fix d assume "isDigit d" "g1 = [d]"
  then show ?thesis
    by (simp add: H_text_def parseInt_def digit_value_less digit_char_digit_value)
next
  fix d1 d2 assume "isDigit d1" "isDigit d2" "g1 = [d1, d2]"
  then show ?thesis
    by (simp add: H_text_def two_digits_parseInt)
qed

lemma valid_MM_iff: "valid_MM mm \<longleftrightarrow> (\<forall>m. mm = Some m \<longrightarrow> m \<le> 59)"
  by (cases mm) (simp_all add: valid_MM_def)

lemma cleaned_cleaned: "cleaned (cleaned s) = cleaned s"
  by (rule cleaned_id) (simp add: cleaned_no_space cleaned_lower)

lemma parseTimeString_cleaned: "parseTimeString (cleaned s) = parseTimeString s"
  by (simp add: parseTimeString_def cleaned_cleaned)

lemma parseTimeString_form:
  assumes "valid_H h" "valid_MM mm" "meridiem per" "cleaned s = time_text pad h mm per"
  shows "parseTimeString s = Some \<lparr>hours = reference_hour per h, minutes = MM_value mm\<rparr>"
proof -
  have "parseTimeString s = parseTimeString (time_text pad h mm per)"
    using assms(4) parseTimeString_cleaned [of s] by simp
  then show ?thesis
    using assms(1-3) parseTimeString_time_text [of h per mm pad]
    by (simp add: valid_H_def valid_MM_iff meridiem_def MM_value_def)
qed

lemma parseTimeString_accepts_only:
  assumes "parseTimeString s = Some p"
  shows "\<exists>pad h mm per. valid_H h \<and> valid_MM mm \<and> meridiem per \<and>
           cleaned s = time_text pad h mm per \<and>
           p = \<lparr>hours = reference_hour per h, minutes = MM_value mm\<rparr>"
proof -
  from assms obtain g1 g2 g3 where re: "time_regex (cleaned s) = Some (g1, g2, g3)"
    by (auto simp: parseTimeString_def split: option.splits)
  have clean: "\<forall>x\<in>set (cleaned s). \<not> isWhiteSpace x \<and> toLowerCase_char x = x"
    by (simp add: cleaned_no_space cleaned_lower)
  from time_regex_clean [OF re clean]
  have g3: "g3 = ''am'' \<or> g3 = ''pm''"
    and g1: "(\<exists>d. isDigit d \<and> g1 = [d]) \<or> (\<exists>d1 d2. isDigit d1 \<and> isDigit d2 \<and> g1 = [d1, d2])"
    and g2: "g2 = None \<or> (\<exists>a b. isDigit a \<and> isDigit b \<and> g2 = Some [a, b])"
    and c: "cleaned s = g1 @ (case g2 of None \<Rightarrow> [] | Some g \<Rightarrow> CHR '':'' # g) @ g3"
    by simp_all
  define h where "h = parseInt g1"
  define mm where "mm = map_option parseInt g2"
  have H: "H_text (length g1 = 2) h = g1"
    unfolding h_def by (rule H_text_parseInt [OF g1])
  have M: "(case mm of None \<Rightarrow> [] | Some m \<Rightarrow> CHR '':'' # two_digits m)
           = (case g2 of None \<Rightarrow> [] | Some g \<Rightarrow> CHR '':'' # g)"
    using g2 by (auto simp: mm_def two_digits_parseInt)
  have form: "cleaned s = time_text (length g1 = 2) h mm g3"
    by (simp add: time_text_def H M c)
  have ranges: "1 \<le> h \<and> h \<le> 12 \<and> MM_value mm \<le> 59"
    using assms re
    by (auto simp: parseTimeString_def h_def mm_def MM_value_def Let_def
        split: option.splits if_splits)
  then have v: "valid_H h" "valid_MM mm"
    by (auto simp: valid_H_def valid_MM_def MM_value_def split: option.splits)
  have m: "meridiem g3" using g3 by (simp add: meridiem_def)
  from parseTimeString_form [OF v m form] assms
  have "p = \<lparr>hours = reference_hour g3 h, minutes = MM_value mm\<rparr>" by simp
  with v m form show ?thesis by blast
qed

text \<open>White space and letter case do not matter.\<close>

lemma filter_dropWhile: "filter (\<lambda>c. \<not> P c) (dropWhile P s) = filter (\<lambda>c. \<not> P c) s"
  by (induction s) simp_all

lemma remove_whitespace_trim: "remove_whitespace (trim s) = remove_whitespace s"
proof -
  have "remove_whitespace (trim s)
        = rev (filter (\<lambda>c. \<not> isWhiteSpace c) (dropWhile isWhiteSpace (rev (dropWhile isWhiteSpace s))))"
    by (simp add: remove_whitespace_def trim_def rev_filter)
  also have "\<dots> = rev (filter (\<lambda>c. \<not> isWhiteSpace c) (rev (dropWhile isWhiteSpace s)))"
    by (simp only: filter_dropWhile)
  also have "\<dots> = filter (\<lambda>c. \<not> isWhiteSpace c) (dropWhile isWhiteSpace s)"
    by (simp add: rev_filter)
  finally show ?thesis by (simp add: filter_dropWhile remove_whitespace_def)
qed

lemma remove_whitespace_lower:
  "remove_whitespace (toLowerCase s) = toLowerCase (remove_whitespace s)"
  by (simp add: remove_whitespace_def toLowerCase_def filter_map o_def isWhiteSpace_lower)

lemma cleaned_alt: "cleaned s = remove_whitespace (toLowerCase s)"
  by (simp add: cleaned_def remove_whitespace_lower remove_whitespace_trim)

lemma validateAndParse_cleaned:
  assumes "cleaned s = cleaned s'"
  shows "validateAndParse s now = validateAndParse s' now"
proof -
  have "parseTimeString s = parseTimeString s'"
    using assms by (simp add: parseTimeString_def)
  moreover have "trim s = [] \<longleftrightarrow> trim s' = []"
    using assms cleaned_Nil_iff by metis
  ultimately show ?thesis
    by (simp add: validateAndParse_def)
qed

section \<open>The candidate instant and the examples\<close>

lemma candidate_fields:
  assumes "hours p \<le> 23" "minutes p \<le> 59"
  shows "Day (candidate now p) = Day now"
    and "TimeWithinDay (candidate now p) = MakeTime (int (hours p)) (int (minutes p)) 0 0"
    and "HourFromTime (candidate now p) = int (hours p)"
    and "MinFromTime (candidate now p) = int (minutes p)"
    and "SecFromTime (candidate now p) = 0"
    and "msFromTime (candidate now p) = 0"
proof -
  let ?h = "int (hours p)" and ?m = "int (minutes p)"
  have r: "0 \<le> MakeTime ?h ?m 0 0" "MakeTime ?h ?m 0 0 < msPerDay"
    using assms by (simp_all add: MakeTime_range)
  show "Day (candidate now p) = Day now"
    unfolding candidate_def by (rule Day_MakeDate(1) [OF r])
  show "TimeWithinDay (candidate now p) = MakeTime ?h ?m 0 0"
    unfolding candidate_def by (rule Day_MakeDate(2) [OF r])
  have c: "candidate now p = Day now * 86400000 + ?h * 3600000 + ?m * 60000"
    by (simp add: candidate_def MakeDate_def MakeTime_def msPerDay_def msPerHour_def
        msPerMinute_def msPerSecond_def)
  have "candidate now p = (Day now * 24 + ?h) * 3600000 + ?m * 60000"
    by (simp add: c)
  moreover have "0 \<le> ?m * 60000" "?m * 60000 < 3600000"
    using assms by simp_all
  ultimately have "candidate now p div 3600000 = Day now * 24 + ?h"
    by simp
  moreover have "0 \<le> ?h" "?h < 24" using assms by simp_all
  ultimately show "HourFromTime (candidate now p) = ?h"
    by (simp add: HourFromTime_def msPerHour_def)
  have "candidate now p = ((Day now * 24 + ?h) * 60 + ?m) * 60000"
    by (simp add: c)
  then have "candidate now p div 60000 = (Day now * 24 + ?h) * 60 + ?m"
    by simp
  moreover have "0 \<le> ?m" "?m < 60" using assms by simp_all
  moreover have "((Day now * 24 + ?h) * 60 + ?m) mod 60 = ?m"
    using \<open>0 \<le> ?m\<close> \<open>?m < 60\<close> by (simp only: mod_mult_self3 mod_pos_pos_trivial)
  ultimately show "MinFromTime (candidate now p) = ?m"
    by (simp only: MinFromTime_def msPerMinute_def)
  have s: "candidate now p = (((Day now * 24 + ?h) * 60 + ?m) * 60) * 1000"
    by (simp add: c)
  then have "candidate now p div 1000 = ((Day now * 24 + ?h) * 60 + ?m) * 60"
    by simp
  then show "SecFromTime (candidate now p) = 0"
    by (simp add: SecFromTime_def msPerSecond_def)
  from s show "msFromTime (candidate now p) = 0"
    by (simp add: msFromTime_def msPerSecond_def)
qed

lemmas cal_defs = YearFromTime_def Day_def msPerDay_def msPerHour_def msPerMinute_def
  msPerSecond_def year_from.simps DayFromYear_def MonthFromTime_def DateFromTime_def
  MonthStart_def InLeapYear_def DaysInYear_def DayWithinYear_def MakeDay_def MakeDate_def
  MakeTime_def Date_UTC_def setUTCDate_def TimeWithinDay_def

lemma parseTimeString_8pm: "parseTimeString ''8pm'' = Some \<lparr>hours = 20, minutes = 0\<rparr>"
  by code_simp

lemma rollover_example: "validateAndParse ''8pm'' (Date_UTC 2024 0 1 20 5 0)
           = \<lparr>setError = [], setIsValid = True, onTimeChange = (Some (Date_UTC 2024 0 2 20 0 0), True)\<rparr>"
  by (simp add: validateAndParse_accepted [OF parseTimeString_8pm] candidate_def cal_defs)

lemma no_rollover_example: "validateAndParse ''8pm'' (Date_UTC 2024 0 1 19 55 0)
           = \<lparr>setError = [], setIsValid = True, onTimeChange = (Some (Date_UTC 2024 0 1 20 0 0), True)\<rparr>"
  by (simp add: validateAndParse_accepted [OF parseTimeString_8pm] candidate_def cal_defs)

lemma toISOString_examples:
  "toISOString (Date_UTC 2024 0 1 20 5 0) = ''2024-01-01T20:05:00.000Z''"
  "toISOString (Date_UTC 2024 0 2 20 0 0) = ''2024-01-02T20:00:00.000Z''"
  "toISOString (Date_UTC 2024 0 1 19 55 0) = ''2024-01-01T19:55:00.000Z''"
  "toISOString (Date_UTC 2024 0 1 20 0 0) = ''2024-01-01T20:00:00.000Z''"
  by (simp_all add: toISOString_def decimal_digits_def digit_char_def cal_defs
      HourFromTime_def MinFromTime_def SecFromTime_def msFromTime_def Let_def upt_rec char_of_eq_iff)

section \<open>The time resolver\<close>

text \<open>
  C1.  Every text of the form \<open>H[:MM](am|pm)\<close> with \<open>H\<close> in 1..12 and \<open>MM\<close> in 0..59,
  in any letter case and with white space anywhere (\<open>cleaned\<close> removes both; the
  plain form is its own cleaned form, lemma \<open>cleaned_time_text\<close>), is resolved at
  every \<open>now\<close> to an instant strictly after \<open>now\<close>.
\<close>

theorem validateAndParse_strictly_future:
  assumes "valid_H h" "valid_MM mm" "meridiem per" "cleaned s = time_text pad h mm per"
  shows "\<exists>t. validateAndParse s now
               = \<lparr>setError = [], setIsValid = True, onTimeChange = (Some t, True)\<rparr>
             \<and> now < t"
proof -
  let ?p = "\<lparr>hours = reference_hour per h, minutes = MM_value mm\<rparr>"
  have p: "parseTimeString s = Some ?p"
    by (rule parseTimeString_form [OF assms])
  from parseTimeString_range [OF p] have "hours ?p \<le> 23" "minutes ?p \<le> 59"
    by blast+
  then have "now < (if candidate now ?p \<le> now then candidate now ?p + msPerDay else candidate now ?p)"
    by (rule candidate_future)
  with validateAndParse_accepted [OF p, of now] show ?thesis
    by blast
qed

theorem validateAndParse_strictly_future_witness:
  "valid_H 8 \<and> valid_MM (Some 30) \<and> meridiem ''pm''
   \<and> cleaned '' 8:30 PM'' = time_text False 8 (Some 30) ''pm''
   \<and> (\<exists>t. validateAndParse '' 8:30 PM'' 1704139500000
             = \<lparr>setError = [], setIsValid = True, onTimeChange = (Some t, True)\<rparr>
           \<and> 1704139500000 < t)"
proof -
  have a: "valid_H 8" by (simp add: valid_H_def)
  have b: "valid_MM (Some 30)" by (simp add: valid_MM_def)
  have c: "meridiem ''pm''" by (simp add: meridiem_def)
  have d: "cleaned '' 8:30 PM'' = time_text False 8 (Some 30) ''pm''" by code_simp
  show ?thesis
    using a b c d validateAndParse_strictly_future [OF a b c d, of 1704139500000] by blast
qed

text \<open>
  C2.  For an accepted text the candidate \<open>c\<close> is built by \<open>Date.UTC\<close> from the UTC
  year, month and date of \<open>now\<close> with the parsed hour and minute and second 0: it lies
  on the calendar date of \<open>now\<close> at that time of day.  The result is \<open>c\<close> when \<open>c\<close> is
  after \<open>now\<close>, and otherwise \<open>c\<close> plus exactly one day: the same time on the next day
  number.  With \<open>now\<close> = 2024-01-01T20:05:00Z the text \<open>8pm\<close> gives
  2024-01-02T20:00:00Z, and with \<open>now\<close> = 2024-01-01T19:55:00Z it gives
  2024-01-01T20:00:00Z (months count from 0 in \<open>Date_UTC\<close>).
\<close>

theorem validateAndParse_anchoring:
  assumes "parseTimeString s = Some p"
  shows "(let c = Date_UTC (YearFromTime now) (MonthFromTime now) (DateFromTime now)
                    (int (hours p)) (int (minutes p)) 0;
              t = (if c \<le> now then c + msPerDay else c)
          in YearFromTime c = YearFromTime now \<and> MonthFromTime c = MonthFromTime now
             \<and> DateFromTime c = DateFromTime now
             \<and> HourFromTime c = int (hours p) \<and> MinFromTime c = int (minutes p)
             \<and> SecFromTime c = 0 \<and> msFromTime c = 0
             \<and> validateAndParse s now
                 = \<lparr>setError = [], setIsValid = True, onTimeChange = (Some t, True)\<rparr>
             \<and> Day t = (if c \<le> now then Day now + 1 else Day now)
             \<and> TimeWithinDay t = TimeWithinDay c)
         \<and> validateAndParse ''8pm'' (Date_UTC 2024 0 1 20 5 0)
             = \<lparr>setError = [], setIsValid = True,
                onTimeChange = (Some (Date_UTC 2024 0 2 20 0 0), True)\<rparr>
         \<and> validateAndParse ''8pm'' (Date_UTC 2024 0 1 19 55 0)
             = \<lparr>setError = [], setIsValid = True,
                onTimeChange = (Some (Date_UTC 2024 0 1 20 0 0), True)\<rparr>"
proof -
  let ?c = "candidate now p"
  have c: "Date_UTC (YearFromTime now) (MonthFromTime now) (DateFromTime now)
             (int (hours p)) (int (minutes p)) 0 = ?c"
    by (simp add: Date_UTC_today candidate_def)
  from parseTimeString_range [OF assms] have r: "hours p \<le> 23" "minutes p \<le> 59"
    by blast+
  note f = candidate_fields [OF r, of now]
  have day: "Day ?c = Day now" by (rule f(1))
  have "Day (?c + msPerDay) = Day ?c + 1" "TimeWithinDay (?c + msPerDay) = TimeWithinDay ?c"
    by (simp_all add: Day_def TimeWithinDay_def msPerDay_def)
  then have next_day: "Day (if ?c \<le> now then ?c + msPerDay else ?c)
                        = (if ?c \<le> now then Day now + 1 else Day now)"
    and same_time: "TimeWithinDay (if ?c \<le> now then ?c + msPerDay else ?c) = TimeWithinDay ?c"
    using day by simp_all
  show ?thesis
    unfolding c Let_def
    using YearFromTime_Day [OF day] MonthFromTime_Day [OF day] DateFromTime_Day [OF day]
      f(3-6) validateAndParse_accepted [OF assms, of now] next_day same_time rollover_example no_rollover_example
    by (intro conjI)
qed

theorem validateAndParse_anchoring_witness:
  "parseTimeString ''11:59 pm'' = Some \<lparr>hours = 23, minutes = 59\<rparr>
   \<and> validateAndParse ''11:59 pm'' (Date_UTC 2024 1 29 23 59 0)
       = \<lparr>setError = [], setIsValid = True,
          onTimeChange = (Some (Date_UTC 2024 2 1 23 59 0), True)\<rparr>"
proof -
  have p: "parseTimeString ''11:59 pm'' = Some \<lparr>hours = 23, minutes = 59\<rparr>" by code_simp
  have n: "Date_UTC 2024 1 29 23 59 0 = 1709251140000" by (simp add: cal_defs)
  have y: "YearFromTime 1709251140000 = 2024" "MonthFromTime 1709251140000 = 1"
    "DateFromTime 1709251140000 = 29"
    by (simp_all add: cal_defs)
  have m: "Date_UTC 2024 2 1 23 59 0 = 1709337540000" "Date_UTC 2024 1 29 23 59 0 = 1709251140000"
    by (simp_all add: cal_defs)
  from validateAndParse_anchoring [OF p, of 1709251140000]
  have "validateAndParse ''11:59 pm'' 1709251140000
        = \<lparr>setError = [], setIsValid = True, onTimeChange = (Some 1709337540000, True)\<rparr>"
    by (simp add: Let_def y m msPerDay_def)
  with p show ?thesis by (simp add: m)
qed

text \<open>
  C3.  The parser accepts exactly the texts whose cleaned form is \<open>H[:MM](am|pm)\<close> with
  \<open>H\<close> in 1..12 and \<open>MM\<close> in 0..59, and for each of them the hour it returns is the one
  of the reference table (\<open>12am\<close> is 0, \<open>1am\<close>..\<open>11am\<close> are 1..11, \<open>12pm\<close> is 12,
  \<open>1pm\<close>..\<open>11pm\<close> are 13..23) and the minute is \<open>MM\<close> unchanged, 0 when absent.
\<close>

theorem parseTimeString_reference_map:
  "parseTimeString s = Some p \<longleftrightarrow>
     (\<exists>pad h mm per. valid_H h \<and> valid_MM mm \<and> meridiem per
        \<and> cleaned s = time_text pad h mm per
        \<and> p = \<lparr>hours = reference_hour per h, minutes = MM_value mm\<rparr>)"
proof
  assume "parseTimeString s = Some p"
  then show "\<exists>pad h mm per. valid_H h \<and> valid_MM mm \<and> meridiem per
        \<and> cleaned s = time_text pad h mm per
        \<and> p = \<lparr>hours = reference_hour per h, minutes = MM_value mm\<rparr>"
    by (rule parseTimeString_accepts_only)
next
  assume "\<exists>pad h mm per. valid_H h \<and> valid_MM mm \<and> meridiem per
        \<and> cleaned s = time_text pad h mm per
        \<and> p = \<lparr>hours = reference_hour per h, minutes = MM_value mm\<rparr>"
  then show "parseTimeString s = Some p"
    using parseTimeString_form by blast
qed

theorem parseTimeString_reference_map_witness:
  "parseTimeString ''12:05 AM'' = Some \<lparr>hours = 0, minutes = 5\<rparr>
   \<and> valid_H 12 \<and> valid_MM (Some 5) \<and> meridiem ''am''
   \<and> cleaned ''12:05 AM'' = time_text False 12 (Some 5) ''am''
   \<and> \<lparr>hours = 0, minutes = 5\<rparr> = \<lparr>hours = reference_hour ''am'' 12, minutes = MM_value (Some 5)\<rparr>"
proof -
  have a: "valid_H 12" by (simp add: valid_H_def)
  have b: "valid_MM (Some 5)" by (simp add: valid_MM_def)
  have c: "meridiem ''am''" by (simp add: meridiem_def)
  have d: "cleaned ''12:05 AM'' = time_text False 12 (Some 5) ''am''" by code_simp
  have e: "\<lparr>hours = 0, minutes = 5\<rparr> = \<lparr>hours = reference_hour ''am'' 12, minutes = MM_value (Some 5)\<rparr>"
    by (simp add: reference_hour_def MM_value_def)
  have "parseTimeString ''12:05 AM'' = Some \<lparr>hours = 0, minutes = 5\<rparr>"
    using a b c d e
    by (subst parseTimeString_reference_map [of "''12:05 AM''" "\<lparr>hours = 0, minutes = 5\<rparr>"]) blast
  with a b c d e show ?thesis by blast
qed

lemma validateAndParse_blank:
  "trim s = [] \<Longrightarrow>
   validateAndParse s now = \<lparr>setError = [], setIsValid = False, onTimeChange = (None, False)\<rparr>"
  by (simp add: validateAndParse_def)

lemma validateAndParse_rejected:
  "trim s \<noteq> [] \<Longrightarrow> parseTimeString s = None \<Longrightarrow>
   validateAndParse s now
     = \<lparr>setError = ''Please enter time in format: HH:MM AM/PM (e.g., 2:30 PM)'',
        setIsValid = False, onTimeChange = (None, False)\<rparr>"
  by (simp add: validateAndParse_def)

lemma parse_None_iff:
  "parseTimeString s = None \<longleftrightarrow>
   \<not> (\<exists>pad h mm per. valid_H h \<and> valid_MM mm \<and> meridiem per \<and> cleaned s = time_text pad h mm per)"
proof
  assume n: "parseTimeString s = None"
  show "\<not> (\<exists>pad h mm per. valid_H h \<and> valid_MM mm \<and> meridiem per \<and> cleaned s = time_text pad h mm per)"
  proof
    assume "\<exists>pad h mm per. valid_H h \<and> valid_MM mm \<and> meridiem per \<and> cleaned s = time_text pad h mm per"
    then obtain pad h mm per where "valid_H h" "valid_MM mm" "meridiem per"
      "cleaned s = time_text pad h mm per" by blast
    from parseTimeString_form [OF this] n show False by simp
  qed
next
  assume a: "\<not> (\<exists>pad h mm per. valid_H h \<and> valid_MM mm \<and> meridiem per \<and> cleaned s = time_text pad h mm per)"
  show "parseTimeString s = None"
  proof (cases "parseTimeString s")
    case None
    then show ?thesis .
  next
    case (Some p)
    from parseTimeString_accepts_only [OF Some] a show ?thesis by blast
  qed
qed

text \<open>
  C4.  The resolver always returns one of three outcomes.  A text that is empty or
  only white space gives no instant and no error message.  A text of the accepted form
  gives an instant.  Every other text (not of the pattern, or with the hour or minute
  out of range) gives no instant and the error message of the field.  The texts
  \<open>20:00\<close>, \<open>13pm\<close> and \<open>8:75pm\<close> give the error message and no instant; the empty
  text and a text of spaces give neither.
\<close>

theorem validateAndParse_rejection:
  "(if \<forall>c\<in>set s. isWhiteSpace c then
      validateAndParse s now = \<lparr>setError = [], setIsValid = False, onTimeChange = (None, False)\<rparr>
    else if \<exists>pad h mm per. valid_H h \<and> valid_MM mm \<and> meridiem per
                            \<and> cleaned s = time_text pad h mm per then
      (\<exists>t. validateAndParse s now
             = \<lparr>setError = [], setIsValid = True, onTimeChange = (Some t, True)\<rparr>)
    else
      validateAndParse s now
        = \<lparr>setError = ''Please enter time in format: HH:MM AM/PM (e.g., 2:30 PM)'',
           setIsValid = False, onTimeChange = (None, False)\<rparr>)
   \<and> validateAndParse ''20:00'' now
       = \<lparr>setError = ''Please enter time in format: HH:MM AM/PM (e.g., 2:30 PM)'',
          setIsValid = False, onTimeChange = (None, False)\<rparr>
   \<and> validateAndParse ''13pm'' now
       = \<lparr>setError = ''Please enter time in format: HH:MM AM/PM (e.g., 2:30 PM)'',
          setIsValid = False, onTimeChange = (None, False)\<rparr>
   \<and> validateAndParse ''8:75pm'' now
       = \<lparr>setError = ''Please enter time in format: HH:MM AM/PM (e.g., 2:30 PM)'',
          setIsValid = False, onTimeChange = (None, False)\<rparr>
   \<and> validateAndParse [] now
       = \<lparr>setError = [], setIsValid = False, onTimeChange = (None, False)\<rparr>
   \<and> validateAndParse ''   '' now
       = \<lparr>setError = [], setIsValid = False, onTimeChange = (None, False)\<rparr>"
proof -
  have general: "(if \<forall>c\<in>set s. isWhiteSpace c then
      validateAndParse s now = \<lparr>setError = [], setIsValid = False, onTimeChange = (None, False)\<rparr>
    else if \<exists>pad h mm per. valid_H h \<and> valid_MM mm \<and> meridiem per
                            \<and> cleaned s = time_text pad h mm per then
      (\<exists>t. validateAndParse s now
             = \<lparr>setError = [], setIsValid = True, onTimeChange = (Some t, True)\<rparr>)
    else
      validateAndParse s now
        = \<lparr>setError = ''Please enter time in format: HH:MM AM/PM (e.g., 2:30 PM)'',
           setIsValid = False, onTimeChange = (None, False)\<rparr>)"
  proof (cases "\<forall>c\<in>set s. isWhiteSpace c")
    case True
    then have "trim s = []" by (simp add: trim_Nil_iff)
    then show ?thesis using True by (simp add: validateAndParse_blank)
  next
    case False
    then have t: "trim s \<noteq> []" by (simp add: trim_Nil_iff)
    show ?thesis
    proof (cases "parseTimeString s")
      case None
      with t False show ?thesis
        using parse_None_iff [of s] by (simp add: validateAndParse_rejected)
    next
      case (Some p)
      then have "\<exists>pad h mm per. valid_H h \<and> valid_MM mm \<and> meridiem per
                   \<and> cleaned s = time_text pad h mm per"
        using parse_None_iff [of s] by simp
      with False validateAndParse_accepted [OF Some, of now] show ?thesis by auto
    qed
  qed
  have p: "parseTimeString ''20:00'' = None" "parseTimeString ''13pm'' = None"
    "parseTimeString ''8:75pm'' = None"
    by code_simp+
  have t: "trim ''20:00'' \<noteq> []" "trim ''13pm'' \<noteq> []" "trim ''8:75pm'' \<noteq> []"
    "trim [] = []" "trim ''   '' = []"
    by code_simp+
  show ?thesis
    using general p t by (simp add: validateAndParse_rejected validateAndParse_blank)
qed

theorem validateAndParse_rejection_witness:
  "\<not> (\<forall>c\<in>set ''8:75pm''. isWhiteSpace c)
   \<and> \<not> (\<exists>pad h mm per. valid_H h \<and> valid_MM mm \<and> meridiem per
                          \<and> cleaned ''8:75pm'' = time_text pad h mm per)
   \<and> validateAndParse ''8:75pm'' 1704139500000
       = \<lparr>setError = ''Please enter time in format: HH:MM AM/PM (e.g., 2:30 PM)'',
          setIsValid = False, onTimeChange = (None, False)\<rparr>
   \<and> list_all isWhiteSpace ''  ''
   \<and> validateAndParse ''  '' 1704139500000
       = \<lparr>setError = [], setIsValid = False, onTimeChange = (None, False)\<rparr>"
proof -
  have a: "\<not> (\<forall>c\<in>set ''8:75pm''. isWhiteSpace c)"
    by (simp add: isWhiteSpace_def)
  have "parseTimeString ''8:75pm'' = None" by code_simp
  then have b: "\<not> (\<exists>pad h mm per. valid_H h \<and> valid_MM mm \<and> meridiem per
                          \<and> cleaned ''8:75pm'' = time_text pad h mm per)"
    by (simp add: parse_None_iff)
  have c: "\<forall>c\<in>set ''  ''. isWhiteSpace c"
    by (simp add: isWhiteSpace_def)
  from validateAndParse_rejection [of "''8:75pm''" 1704139500000] a b
  have d: "validateAndParse ''8:75pm'' 1704139500000
       = \<lparr>setError = ''Please enter time in format: HH:MM AM/PM (e.g., 2:30 PM)'',
          setIsValid = False, onTimeChange = (None, False)\<rparr>"
    by presburger
  from validateAndParse_rejection [of "''  ''" 1704139500000] c
  have e: "validateAndParse ''  '' 1704139500000
       = \<lparr>setError = [], setIsValid = False, onTimeChange = (None, False)\<rparr>"
    by presburger
  from c have "list_all isWhiteSpace ''  ''" by (simp add: list_all_iff)
  with a b d e show ?thesis by blast
qed

text \<open>
  C5.  Two texts that differ only in letter case and in white space, anywhere, are
  resolved alike at every \<open>now\<close>; a text without \<open>:MM\<close> is resolved as the same text
  with \<open>:00\<close>; in particular \<open>8pm\<close> and \<open>8:00 PM\<close> give the same instant.
\<close>

theorem validateAndParse_insensitive:
  "(remove_whitespace (toLowerCase s) = remove_whitespace (toLowerCase s') \<longrightarrow>
      validateAndParse s now = validateAndParse s' now)
   \<and> (valid_H h \<and> meridiem per \<longrightarrow>
        validateAndParse (time_text pad h None per) now
          = validateAndParse (time_text pad h (Some 0) per) now)
   \<and> validateAndParse ''8pm'' now = validateAndParse ''8:00 PM'' now
   \<and> (\<exists>t. validateAndParse ''8pm'' now
            = \<lparr>setError = [], setIsValid = True, onTimeChange = (Some t, True)\<rparr>)"
proof (intro conjI impI)
  assume "remove_whitespace (toLowerCase s) = remove_whitespace (toLowerCase s')"
  then have "cleaned s = cleaned s'" by (simp add: cleaned_alt)
  then show "validateAndParse s now = validateAndParse s' now"
    by (rule validateAndParse_cleaned)
next
  assume a: "valid_H h \<and> meridiem per"
  have v: "valid_MM None" "valid_MM (Some 0)" by (simp_all add: valid_MM_def)
  have c: "cleaned (time_text pad h mm per) = time_text pad h mm per" if "valid_MM mm" for mm
    using a that by (intro cleaned_time_text) (simp_all add: valid_H_def meridiem_def valid_MM_iff)
  have "parseTimeString (time_text pad h None per) = Some \<lparr>hours = reference_hour per h, minutes = 0\<rparr>"
    using parseTimeString_form [OF _ v(1) _ c [OF v(1)]] a by (simp add: MM_value_def)
  moreover have "parseTimeString (time_text pad h (Some 0) per)
                 = Some \<lparr>hours = reference_hour per h, minutes = 0\<rparr>"
    using parseTimeString_form [OF _ v(2) _ c [OF v(2)]] a by (simp add: MM_value_def)
  ultimately show "validateAndParse (time_text pad h None per) now
                   = validateAndParse (time_text pad h (Some 0) per) now"
    by (simp add: validateAndParse_accepted)
next
  have "parseTimeString ''8:00 PM'' = Some \<lparr>hours = 20, minutes = 0\<rparr>" by code_simp
  then show "validateAndParse ''8pm'' now = validateAndParse ''8:00 PM'' now"
    by (simp add: validateAndParse_accepted parseTimeString_8pm)
next
  show "\<exists>t. validateAndParse ''8pm'' now
            = \<lparr>setError = [], setIsValid = True, onTimeChange = (Some t, True)\<rparr>"
    by (simp add: validateAndParse_accepted [OF parseTimeString_8pm])
qed

theorem validateAndParse_insensitive_witness:
  "remove_whitespace (toLowerCase ''2:30 Pm'') = remove_whitespace (toLowerCase '' 2 :30pM '')
   \<and> validateAndParse ''2:30 Pm'' 1704139500000 = validateAndParse '' 2 :30pM '' 1704139500000
   \<and> valid_H 9 \<and> meridiem ''am''
   \<and> validateAndParse (time_text True 9 None ''am'') 1704139500000
       = validateAndParse (time_text True 9 (Some 0) ''am'') 1704139500000"
proof -
  have a: "remove_whitespace (toLowerCase ''2:30 Pm'') = remove_whitespace (toLowerCase '' 2 :30pM '')"
    by code_simp
  have b: "valid_H 9 \<and> meridiem ''am''"
    by (simp add: valid_H_def meridiem_def)
  from validateAndParse_insensitive [of "''2:30 Pm''" "'' 2 :30pM ''" 1704139500000 9 "''am''" True]
    a b show ?thesis by blast
qed

section \<open>The scheduler\<close>

lemmas result_defs = failure_result_def catch_result_def

lemma schedule_ten_minutes_no_window:
  assumes "TWILIO_ACCOUNT_SID env \<noteq> []" "TWILIO_AUTH_TOKEN env \<noteq> []"
    "TWILIO_MESSAGING_SERVICE_SID env \<noteq> []"
    and "accessTime params = now + 10 * 60 * 1000"
  shows "scheduleAccessNotifications env create fmt now params
         = (failure_result
              ''The selected time must be at least 16 minutes in the future for scheduled messages.'',
            [])"
    and "scheduleAccessNotifications_15 env create fmt now params
         = (failure_result
              ''The selected time must be at least 15 minutes in the future for scheduled messages.'',
            [])"
  using assms
  by (simp_all add: scheduleAccessNotifications_def scheduleAccessNotifications_15_def
      try_block_strict_def warningRequest_15_def accessRequest_15_def Let_def)

lemma schedule_twenty_minutes_restored_only:
  assumes "TWILIO_ACCOUNT_SID env \<noteq> []" "TWILIO_AUTH_TOKEN env \<noteq> []"
    "TWILIO_MESSAGING_SERVICE_SID env \<noteq> []"
    and "accessTime params = now + 20 * 60 * 1000"
    and "\<And>r. create r = Inr (sid r)"
  shows "scheduleAccessNotifications env create fmt now params
         = (\<lparr>success = True, messageIds = Some [sid (accessRequest env params)],
             scheduledMessages =
               Some [\<lparr>message_type = ''access restored'',
                      scheduledFor = toISOString (now + 20 * 60 * 1000)\<rparr>],
             error = None\<rparr>,
            [accessRequest env params])"
    and "scheduleAccessNotifications_15 env create fmt now params
         = (\<lparr>success = True, messageIds = Some [sid (accessRequest_15 env fmt params)],
             scheduledMessages = None, error = None\<rparr>,
            [accessRequest_15 env fmt params])"
    and "sendAt (accessRequest env params) = now + 20 * 60 * 1000"
    and "sendAt (accessRequest_15 env fmt params) = now + 20 * 60 * 1000"
  using assms
  by (simp_all add: scheduleAccessNotifications_def scheduleAccessNotifications_15_def
      try_block_strict_def warningRequest_15_def accessRequest_15_def accessRequest_def Let_def)

lemma schedule_lib_in_future_both:
  assumes "TWILIO_ACCOUNT_SID env \<noteq> []" "TWILIO_AUTH_TOKEN env \<noteq> []"
    "TWILIO_PHONE_NUMBER env \<noteq> []"
    and "now + 5 * 60 * 1000 < accessTime params"
    and "\<And>r. create r = Inr (sid r)"
  shows "scheduleAccessNotifications_lib env create fmt now params
         = (\<lparr>success = True,
             messageIds = Some [sid (warningRequest_lib env fmt params),
                                sid (accessRequest_lib env fmt params)],
             scheduledMessages = None, error = None\<rparr>,
            [warningRequest_lib env fmt params, accessRequest_lib env fmt params])"
  using assms
  by (simp add: scheduleAccessNotifications_lib_def try_block_strict_def warningRequest_lib_def
      accessRequest_lib_def Let_def)

lemmas example_defs = example_env_def example_params_def accepts_all_def rejects_at_def
  rejects_before_def

text \<open>
  C6.  \<open>now\<close> is T = 2024-01-01T20:05:00Z and the target is T + 10 minutes, with a
  configured environment.  The revision of \<^verbatim>\<open>src/lib/twilio.ts\<close> has no minimum lead:
  it dispatches every notification whose instant is after \<open>now\<close>.  With a provider that
  accepts it dispatches both and returns a success with two identifiers; with a
  provider that rejects a message due within 15 minutes it dispatches the warning and
  returns the provider's error.  The two later revisions dispatch nothing and return
  the failure that names the minimum lead, as they do for every T (lemma
  \<open>schedule_ten_minutes_no_window\<close>).
\<close>

theorem schedule_ten_minutes_evaluated:
  "scheduleAccessNotifications_lib example_env accepts_all example_format 1704139500000
     (example_params (1704139500000 + 10 * 60 * 1000))
   = (\<lparr>success = True,
       messageIds = Some [''SM00000000000000000000000000000001'',
                          ''SM00000000000000000000000000000001''],
       scheduledMessages = None, error = None\<rparr>,
      [warningRequest_lib example_env example_format (example_params (1704139500000 + 10 * 60 * 1000)),
       accessRequest_lib example_env example_format (example_params (1704139500000 + 10 * 60 * 1000))])
   \<and> scheduleAccessNotifications_lib example_env (rejects_before (1704139500000 + 15 * 60 * 1000))
       example_format 1704139500000 (example_params (1704139500000 + 10 * 60 * 1000))
     = (\<lparr>success = False, messageIds = None, scheduledMessages = None,
         error = Some ''Failed to schedule SMS: SendAt time must be at least 900 seconds in the future''\<rparr>,
        [warningRequest_lib example_env example_format (example_params (1704139500000 + 10 * 60 * 1000))])
   \<and> scheduleAccessNotifications_15 example_env accepts_all example_format 1704139500000
       (example_params (1704139500000 + 10 * 60 * 1000))
     = (\<lparr>success = False, messageIds = None, scheduledMessages = None,
         error = Some ''The selected time must be at least 15 minutes in the future for scheduled messages.''\<rparr>,
        [])
   \<and> scheduleAccessNotifications example_env accepts_all example_format 1704139500000
       (example_params (1704139500000 + 10 * 60 * 1000))
     = (\<lparr>success = False, messageIds = None, scheduledMessages = None,
         error = Some ''The selected time must be at least 16 minutes in the future for scheduled messages.''\<rparr>,
        [])"
  by (simp add: scheduleAccessNotifications_lib_def scheduleAccessNotifications_15_def
      scheduleAccessNotifications_def try_block_strict_def warningRequest_lib_def
      accessRequest_lib_def warningRequest_15_def accessRequest_15_def failure_result_def
      catch_result_def errorMessage_def example_defs Let_def)

text \<open>
  C7.  \<open>now\<close> is T = 2024-01-01T20:05:00Z and the target is T + 20 minutes, with a
  configured environment and a provider that accepts every message.  The revision of
  \<^verbatim>\<open>src/lib/twilio.ts\<close> dispatches the warning for T + 15 minutes as well as the
  restored notification: two requests, two identifiers.  The two later revisions drop
  the warning and dispatch the restored notification alone, as they do for every T
  (lemma \<open>schedule_twenty_minutes_restored_only\<close>).
\<close>

theorem schedule_twenty_minutes_evaluated:
  "scheduleAccessNotifications_lib example_env accepts_all example_format 1704139500000
     (example_params (1704139500000 + 20 * 60 * 1000))
   = (\<lparr>success = True,
       messageIds = Some [''SM00000000000000000000000000000001'',
                          ''SM00000000000000000000000000000001''],
       scheduledMessages = None, error = None\<rparr>,
      [warningRequest_lib example_env example_format (example_params (1704139500000 + 20 * 60 * 1000)),
       accessRequest_lib example_env example_format (example_params (1704139500000 + 20 * 60 * 1000))])
   \<and> sendAt (warningRequest_lib example_env example_format
         (example_params (1704139500000 + 20 * 60 * 1000)))
     = 1704139500000 + 15 * 60 * 1000
   \<and> scheduleAccessNotifications_15 example_env accepts_all example_format 1704139500000
       (example_params (1704139500000 + 20 * 60 * 1000))
     = (\<lparr>success = True, messageIds = Some [''SM00000000000000000000000000000001''],
         scheduledMessages = None, error = None\<rparr>,
        [accessRequest_15 example_env example_format (example_params (1704139500000 + 20 * 60 * 1000))])
   \<and> scheduleAccessNotifications example_env accepts_all example_format 1704139500000
       (example_params (1704139500000 + 20 * 60 * 1000))
     = (\<lparr>success = True, messageIds = Some [''SM00000000000000000000000000000001''],
         scheduledMessages =
           Some [\<lparr>message_type = ''access restored'',
                  scheduledFor = ''2024-01-01T20:25:00.000Z''\<rparr>],
         error = None\<rparr>,
        [accessRequest example_env (example_params (1704139500000 + 20 * 60 * 1000))])"
proof -
  have iso: "toISOString 1704140700000 = ''2024-01-01T20:25:00.000Z''"
    by (simp add: toISOString_def decimal_digits_def digit_char_def cal_defs
        HourFromTime_def MinFromTime_def SecFromTime_def msFromTime_def Let_def upt_rec
        char_of_eq_iff)
  show ?thesis
    by (simp add: scheduleAccessNotifications_lib_def scheduleAccessNotifications_15_def
        scheduleAccessNotifications_def try_block_strict_def warningRequest_lib_def
        accessRequest_lib_def warningRequest_15_def accessRequest_15_def accessRequest_def
        example_defs iso Let_def)
qed

lemma schedule_warning_failure:
  assumes "TWILIO_ACCOUNT_SID env \<noteq> []" "TWILIO_AUTH_TOKEN env \<noteq> []"
    "TWILIO_MESSAGING_SERVICE_SID env \<noteq> []"
    and "now + 16 * 60 * 1000 \<le> accessTime params - 5 * 60 * 1000"
    and "create (warningRequest env fmt params) = Inl e"
  shows "scheduleAccessNotifications env create fmt now params
         = (catch_result e, [warningRequest env fmt params])"
  using assms by (simp add: scheduleAccessNotifications_def Let_def)

lemma try_block_strict_warning_failure:
  assumes "threshold < sendAt w" "create w = Inl e"
  shows "try_block_strict create w a threshold msg = (catch_result e, [w])"
  using assms by (simp add: try_block_strict_def)

text \<open>
  The provider rejects the warning and would accept the restored notification, both
  eligible (the target is 30 minutes after \<open>now\<close>): the restored notification is never
  given to the provider and the result carries no identifier.
\<close>

theorem schedule_failure_isolation_counterexample:
  "rejects_at (1704139500000 + 25 * 60 * 1000)
     (warningRequest example_env example_format (example_params (1704139500000 + 30 * 60 * 1000)))
   = Inl (Error_object ''Service unavailable'')
   \<and> rejects_at (1704139500000 + 25 * 60 * 1000)
       (accessRequest example_env (example_params (1704139500000 + 30 * 60 * 1000)))
     = Inr ''SM00000000000000000000000000000002''
   \<and> scheduleAccessNotifications example_env (rejects_at (1704139500000 + 25 * 60 * 1000))
       example_format 1704139500000 (example_params (1704139500000 + 30 * 60 * 1000))
     = (\<lparr>success = False, messageIds = None, scheduledMessages = None,
         error = Some ''Failed to schedule SMS: Service unavailable''\<rparr>,
        [warningRequest example_env example_format (example_params (1704139500000 + 30 * 60 * 1000))])"
  by (simp add: scheduleAccessNotifications_def warningRequest_def accessRequest_def
      example_defs catch_result_def errorMessage_def Let_def)

text \<open>
  C8, as the code has it.  The two requests are dispatched in order, the warning first,
  inside one \<^verbatim>\<open>try\<close> block.  When the warning is eligible and its dispatch fails, the
  call ends there: the restored request is not attempted, and the result is the
  failure \<open>Failed to schedule SMS:\<close> with the provider's message and no identifier.
  This holds in the three revisions.
\<close>

theorem schedule_first_failure_ends_call:
  assumes "TWILIO_ACCOUNT_SID env \<noteq> []" "TWILIO_AUTH_TOKEN env \<noteq> []"
    "TWILIO_MESSAGING_SERVICE_SID env \<noteq> []" "TWILIO_PHONE_NUMBER env \<noteq> []"
    and "now + 16 * 60 * 1000 \<le> accessTime params - 5 * 60 * 1000"
    and "\<And>r. sendAt r = accessTime params - 5 * 60 * 1000 \<Longrightarrow> create r = Inl e"
  shows "scheduleAccessNotifications env create fmt now params
           = (\<lparr>success = False, messageIds = None, scheduledMessages = None,
               error = Some (''Failed to schedule SMS: '' @ errorMessage e)\<rparr>,
              [warningRequest env fmt params])
         \<and> scheduleAccessNotifications_15 env create fmt now params
           = (\<lparr>success = False, messageIds = None, scheduledMessages = None,
               error = Some (''Failed to schedule SMS: '' @ errorMessage e)\<rparr>,
              [warningRequest_15 env fmt params])
         \<and> scheduleAccessNotifications_lib env create fmt now params
           = (\<lparr>success = False, messageIds = None, scheduledMessages = None,
               error = Some (''Failed to schedule SMS: '' @ errorMessage e)\<rparr>,
              [warningRequest_lib env fmt params])"
proof -
  have w: "create (warningRequest env fmt params) = Inl e"
    "create (warningRequest_15 env fmt params) = Inl e"
    "create (warningRequest_lib env fmt params) = Inl e"
    by (rule assms(6), simp add: warningRequest_def warningRequest_15_def warningRequest_lib_def)+
  have t: "now + 15 * 60 * 1000 < sendAt (warningRequest_15 env fmt params)"
    "now < sendAt (warningRequest_lib env fmt params)"
    using assms(5) by (simp_all add: warningRequest_15_def warningRequest_lib_def)
  show ?thesis
    using assms(1-4)
      schedule_warning_failure [of env now params create fmt e, OF assms(1-3) assms(5) w(1)]
      try_block_strict_warning_failure
        [of "now + 15 * 60 * 1000" "warningRequest_15 env fmt params" create e, OF t(1) w(2)]
      try_block_strict_warning_failure
        [of now "warningRequest_lib env fmt params" create e, OF t(2) w(3)]
    by (simp add: scheduleAccessNotifications_15_def scheduleAccessNotifications_lib_def
        catch_result_def Let_def)
qed

theorem schedule_first_failure_ends_call_witness:
  "scheduleAccessNotifications_15 example_env (rejects_at (25 * 60 * 1000)) example_format 0
     (example_params (30 * 60 * 1000))
   = (\<lparr>success = False, messageIds = None, scheduledMessages = None,
       error = Some ''Failed to schedule SMS: Service unavailable''\<rparr>,
      [warningRequest_15 example_env example_format (example_params (30 * 60 * 1000))])
   \<and> scheduleAccessNotifications_lib example_env (rejects_at (25 * 60 * 1000)) example_format 0
     (example_params (30 * 60 * 1000))
   = (\<lparr>success = False, messageIds = None, scheduledMessages = None,
       error = Some ''Failed to schedule SMS: Service unavailable''\<rparr>,
      [warningRequest_lib example_env example_format (example_params (30 * 60 * 1000))])"
proof -
  have a: "TWILIO_ACCOUNT_SID example_env \<noteq> []" "TWILIO_AUTH_TOKEN example_env \<noteq> []"
    "TWILIO_MESSAGING_SERVICE_SID example_env \<noteq> []" "TWILIO_PHONE_NUMBER example_env \<noteq> []"
    by (simp_all add: example_env_def)
  have b: "0 + 16 * 60 * 1000 \<le> accessTime (example_params (30 * 60 * 1000)) - 5 * 60 * 1000"
    by (simp add: example_params_def)
  have c: "rejects_at (25 * 60 * 1000) r = Inl (Error_object ''Service unavailable'')"
    if "sendAt r = accessTime (example_params (30 * 60 * 1000)) - 5 * 60 * 1000" for r
    using that by (simp add: rejects_at_def example_params_def)
  from schedule_first_failure_ends_call [where fmt = example_format, OF a b c]
  show ?thesis by (simp add: errorMessage_def)
qed

lemma try_block_strict_ok:
  "msg \<noteq> [] \<Longrightarrow> ScheduleResult_ok (fst (try_block_strict create w a threshold msg))"
  by (auto simp: ScheduleResult_ok_def try_block_strict_def result_defs Let_def split: sum.splits)

lemma failure_result_ok: "msg \<noteq> [] \<Longrightarrow> ScheduleResult_ok (failure_result msg)"
  by (simp add: ScheduleResult_ok_def failure_result_def)

text \<open>
  C10.  Every result of the scheduler, in each of its three revisions and on every
  path (credentials missing, nothing eligible, a dispatch that throws, success), is well
  formed: a success carries one or two identifiers and no error, a failure carries a
  non-empty error and no identifiers.
\<close>

theorem ScheduleResult_invariant:
  "ScheduleResult_ok (fst (scheduleAccessNotifications env create fmt now params))
   \<and> ScheduleResult_ok (fst (scheduleAccessNotifications_15 env create fmt now params))
   \<and> ScheduleResult_ok (fst (scheduleAccessNotifications_lib env create fmt now params))"
proof (intro conjI)
  show "ScheduleResult_ok (fst (scheduleAccessNotifications env create fmt now params))"
    by (auto simp: ScheduleResult_ok_def scheduleAccessNotifications_def result_defs Let_def
        split: sum.splits)
  show "ScheduleResult_ok (fst (scheduleAccessNotifications_15 env create fmt now params))"
    by (simp add: scheduleAccessNotifications_15_def failure_result_ok try_block_strict_ok Let_def)
  show "ScheduleResult_ok (fst (scheduleAccessNotifications_lib env create fmt now params))"
    by (simp add: scheduleAccessNotifications_lib_def failure_result_ok try_block_strict_ok)
qed

theorem ScheduleResult_invariant_witness:
  "ScheduleResult_ok
     (fst (scheduleAccessNotifications example_env (rejects_at (30 * 60 * 1000)) example_format 0
        (example_params (30 * 60 * 1000))))
   \<and> fst (scheduleAccessNotifications example_env (rejects_at (30 * 60 * 1000)) example_format 0
        (example_params (30 * 60 * 1000)))
     = \<lparr>success = False, messageIds = None, scheduledMessages = None,
        error = Some ''Failed to schedule SMS: Service unavailable''\<rparr>
   \<and> ScheduleResult_ok
       (fst (scheduleAccessNotifications example_env accepts_all example_format 0
          (example_params (30 * 60 * 1000))))
   \<and> messageIds (fst (scheduleAccessNotifications example_env accepts_all example_format 0
          (example_params (30 * 60 * 1000))))
     = Some [''SM00000000000000000000000000000001'', ''SM00000000000000000000000000000001'']"
proof -
  have a: "fst (scheduleAccessNotifications example_env (rejects_at (30 * 60 * 1000)) example_format 0
        (example_params (30 * 60 * 1000)))
     = \<lparr>success = False, messageIds = None, scheduledMessages = None,
        error = Some ''Failed to schedule SMS: Service unavailable''\<rparr>"
    by (simp add: scheduleAccessNotifications_def warningRequest_def accessRequest_def
        example_defs catch_result_def errorMessage_def Let_def)
  have b: "messageIds (fst (scheduleAccessNotifications example_env accepts_all example_format 0
          (example_params (30 * 60 * 1000))))
     = Some [''SM00000000000000000000000000000001'', ''SM00000000000000000000000000000001'']"
    by (simp add: scheduleAccessNotifications_def example_defs Let_def)
  from a b
    ScheduleResult_invariant [of example_env "rejects_at (30 * 60 * 1000)" example_format 0
      "example_params (30 * 60 * 1000)"]
    ScheduleResult_invariant [of example_env accepts_all example_format 0
      "example_params (30 * 60 * 1000)"]
  show ?thesis by blast
qed

section \<open>The endpoint\<close>

lemma sevenDaysFromNow_eq:
  "sevenDaysFromNow LocalTZA t
   = t + LocalTZA t True + 7 * msPerDay - LocalTZA (t + LocalTZA t True + 7 * msPerDay) False"
proof -
  let ?l = "t + LocalTZA t True"
  have "MakeDate (MakeDay (YearFromTime ?l) (MonthFromTime ?l) (DateFromTime ?l + 7)) (TimeWithinDay ?l)
        = MakeDate (Day ?l + 7) (TimeWithinDay ?l)"
    by (simp add: MakeDay_of_time)
  also have "\<dots> = MakeDate (Day ?l) (TimeWithinDay ?l) + 7 * msPerDay"
    by (simp add: MakeDate_def algebra_simps)
  finally have "MakeDate (MakeDay (YearFromTime ?l) (MonthFromTime ?l) (DateFromTime ?l + 7))
                  (TimeWithinDay ?l) = ?l + 7 * msPerDay"
    by (simp add: MakeDate_Day_TimeWithinDay)
  then show ?thesis
    by (simp add: sevenDaysFromNow_def LocalTime_def UTC_time_def Let_def)
qed



lemma sevenDaysFromNow_fixed_offset:
  assumes "\<And>t b. LocalTZA t b = z"
  shows "sevenDaysFromNow LocalTZA t = t + 7 * msPerDay"
  by (simp add: sevenDaysFromNow_eq assms)

text \<open>
  A request whose body cannot be read as JSON, or is \<open>null\<close>, is answered with status
  500 and the scheduler is not called.
\<close>

lemma POST_unreadable_body:
  "POST sched Date_parse LocalTZA now1 now2 (JsonRejects e)
   = (\<lparr>status = 500, json = Failure (Some (''Server error: '' @ route_errorMessage e))\<rparr>, [])"
  "POST sched Date_parse LocalTZA now1 now2 JsonNull
   = (\<lparr>status = 500, json = Failure (Some (''Server error: '' @ null_property_message))\<rparr>, [])"
  by (simp_all add: POST_def server_error_def route_errorMessage_def)










end
